theory Spec2Isabelle
  imports Complex_Main
begin

section \<open>QuickDraw-Screenshot: the annotation canvas, the commands and the session\<close>

text \<open>
  The program is a Tk application. Its state is one object (\<open>QuickDrawScreenshot\<close>) that
  owns a Tk canvas, two stacks of command objects and the drawing-area rectangle. The
  model keeps that shape: the canvas is a display list of items, a command is a record,
  and each method is a function from the session record to the session record (or to a
  Python exception). Coordinates are Python numbers: integers from pointer events,
  floats from \<open>canvas.coords\<close> and from the trigonometry of the arrows. They are
  modelled as \<open>real\<close>, so the arithmetic is exact; rounding of IEEE doubles is not part
  of the model. Widget bindings, the cursor, the toolbar and purely cosmetic item options
  (stipple, dash, anchor) are left out.
\<close>

subsection \<open>Python exceptions\<close>

datatype py_error = TypeError | ValueError | IndexError | TclError | AttributeError

subsection \<open>The Tk canvas\<close>

type_synonym point = "real \<times> real"
type_synonym box = "real \<times> real \<times> real \<times> real"

datatype tag_or_id = Id nat | Tag string

datatype item_type = image_item | rectangle_item | line_item | polygon_item | text_item

text \<open>The text of an item: a literal, or the f-string \<open>f"{width}x{height}"\<close> of the
  dimension readout, kept as its two numbers.\<close>

datatype label = Plain string | Dimensions real real

record canvas_item =
  item_id :: nat
  item_type :: item_type
  item_coords :: "real list"
  item_outline :: string
  item_fill :: string
  item_width :: real
  item_label :: label
  item_font :: "string \<times> int"
  item_state :: string
  item_tags :: "string list"

text \<open>The display list runs from the bottom item to the top one. Tk numbers items from 1
  and never reuses an id.\<close>

record canvas =
  display_list :: "canvas_item list"
  next_id :: nat

definition Canvas :: canvas where
  "Canvas = \<lparr>display_list = [], next_id = 1\<rparr>"

definition matches :: "tag_or_id \<Rightarrow> canvas_item \<Rightarrow> bool" where
  "matches t it = (case t of Id n \<Rightarrow> item_id it = n | Tag g \<Rightarrow> g \<in> set (item_tags it))"

definition create_item :: "canvas \<Rightarrow> canvas_item \<Rightarrow> nat \<times> canvas" where
  "create_item cv it =
     (next_id cv,
      cv\<lparr>display_list := display_list cv @ [it\<lparr>item_id := next_id cv\<rparr>],
         next_id := Suc (next_id cv)\<rparr>)"

definition create_image :: "canvas \<Rightarrow> real \<Rightarrow> real \<Rightarrow> nat \<times> canvas" where
  "create_image cv x y =
     create_item cv \<lparr>item_id = 0, item_type = image_item, item_coords = [x, y],
       item_outline = [], item_fill = [], item_width = 0, item_label = Plain [],
       item_font = (''TkDefaultFont'', 0), item_state = ''normal'', item_tags = []\<rparr>"

definition create_rectangle ::
  "canvas \<Rightarrow> real \<Rightarrow> real \<Rightarrow> real \<Rightarrow> real \<Rightarrow> string \<Rightarrow> string \<Rightarrow> real \<Rightarrow> string list \<Rightarrow> nat \<times> canvas" where
  "create_rectangle cv x1 y1 x2 y2 outline fill width tags =
     create_item cv \<lparr>item_id = 0, item_type = rectangle_item, item_coords = [x1, y1, x2, y2],
       item_outline = outline, item_fill = fill, item_width = width, item_label = Plain [],
       item_font = (''TkDefaultFont'', 0), item_state = ''normal'', item_tags = tags\<rparr>"

definition create_line ::
  "canvas \<Rightarrow> real \<Rightarrow> real \<Rightarrow> real \<Rightarrow> real \<Rightarrow> string \<Rightarrow> real \<Rightarrow> string list \<Rightarrow> nat \<times> canvas" where
  "create_line cv x1 y1 x2 y2 fill width tags =
     create_item cv \<lparr>item_id = 0, item_type = line_item, item_coords = [x1, y1, x2, y2],
       item_outline = [], item_fill = fill, item_width = width, item_label = Plain [],
       item_font = (''TkDefaultFont'', 0), item_state = ''normal'', item_tags = tags\<rparr>"

definition create_polygon ::
  "canvas \<Rightarrow> real list \<Rightarrow> string \<Rightarrow> string \<Rightarrow> string list \<Rightarrow> nat \<times> canvas" where
  "create_polygon cv coords fill outline tags =
     create_item cv \<lparr>item_id = 0, item_type = polygon_item, item_coords = coords,
       item_outline = outline, item_fill = fill, item_width = 1, item_label = Plain [],
       item_font = (''TkDefaultFont'', 0), item_state = ''normal'', item_tags = tags\<rparr>"

definition create_text ::
  "canvas \<Rightarrow> real \<Rightarrow> real \<Rightarrow> label \<Rightarrow> string \<Rightarrow> string \<times> int \<Rightarrow> real \<Rightarrow> string list \<Rightarrow> nat \<times> canvas" where
  "create_text cv x y lbl fill font width tags =
     create_item cv \<lparr>item_id = 0, item_type = text_item, item_coords = [x, y],
       item_outline = [], item_fill = fill, item_width = width, item_label = lbl,
       item_font = font, item_state = ''normal'', item_tags = tags\<rparr>"

text \<open>Tk ignores a tag or id that matches no item: \<open>delete\<close>, \<open>move\<close>, \<open>coords\<close> and
  \<open>itemconfig\<close> then leave the canvas as it is.\<close>

definition canvas_delete :: "canvas \<Rightarrow> tag_or_id \<Rightarrow> canvas" where
  "canvas_delete cv t = cv\<lparr>display_list := filter (\<lambda>it. \<not> matches t it) (display_list cv)\<rparr>"

fun shift_coords :: "real \<Rightarrow> real \<Rightarrow> real list \<Rightarrow> real list" where
  "shift_coords dx dy (x # y # rest) = (x + dx) # (y + dy) # shift_coords dx dy rest"
| "shift_coords dx dy rest = rest"

definition canvas_move :: "canvas \<Rightarrow> tag_or_id \<Rightarrow> real \<Rightarrow> real \<Rightarrow> canvas" where
  "canvas_move cv t dx dy =
     cv\<lparr>display_list :=
          map (\<lambda>it. if matches t it then it\<lparr>item_coords := shift_coords dx dy (item_coords it)\<rparr>
                     else it)
            (display_list cv)\<rparr>"

text \<open>\<open>coords\<close> reads or writes the first matching item of the display list.\<close>

definition get_coords :: "canvas \<Rightarrow> tag_or_id \<Rightarrow> real list" where
  "get_coords cv t =
     (case filter (matches t) (display_list cv) of [] \<Rightarrow> [] | it # _ \<Rightarrow> item_coords it)"

fun update_first :: "('a \<Rightarrow> bool) \<Rightarrow> ('a \<Rightarrow> 'a) \<Rightarrow> 'a list \<Rightarrow> 'a list" where
  "update_first p f [] = []"
| "update_first p f (x # xs) = (if p x then f x # xs else x # update_first p f xs)"

definition set_coords :: "canvas \<Rightarrow> tag_or_id \<Rightarrow> real list \<Rightarrow> canvas" where
  "set_coords cv t cs =
     cv\<lparr>display_list := update_first (matches t) (\<lambda>it. it\<lparr>item_coords := cs\<rparr>) (display_list cv)\<rparr>"

definition itemconfig :: "canvas \<Rightarrow> tag_or_id \<Rightarrow> (canvas_item \<Rightarrow> canvas_item) \<Rightarrow> canvas" where
  "itemconfig cv t f =
     cv\<lparr>display_list := map (\<lambda>it. if matches t it then f it else it) (display_list cv)\<rparr>"

definition find_withtag :: "canvas \<Rightarrow> tag_or_id \<Rightarrow> nat list" where
  "find_withtag cv t = map item_id (filter (matches t) (display_list cv))"

definition addtag_withtag :: "canvas \<Rightarrow> string \<Rightarrow> tag_or_id \<Rightarrow> canvas" where
  "addtag_withtag cv new t =
     cv\<lparr>display_list :=
          map (\<lambda>it. if matches t it \<and> new \<notin> set (item_tags it)
                     then it\<lparr>item_tags := item_tags it @ [new]\<rparr> else it)
            (display_list cv)\<rparr>"

definition tag_raise :: "canvas \<Rightarrow> tag_or_id \<Rightarrow> canvas" where
  "tag_raise cv t =
     cv\<lparr>display_list := filter (\<lambda>it. \<not> matches t it) (display_list cv)
                          @ filter (matches t) (display_list cv)\<rparr>"

subsection \<open>commands.py\<close>

text \<open>\<open>math.atan2\<close> on the reals.\<close>

definition atan2 :: "real \<Rightarrow> real \<Rightarrow> real" where
  "atan2 y x =
     (if 0 < x then arctan (y / x)
      else if x < 0 \<and> 0 \<le> y then arctan (y / x) + pi
      else if x < 0 then arctan (y / x) - pi
      else if 0 < y then pi / 2
      else if y < 0 then - (pi / 2)
      else 0)"

text \<open>\<open>shape_id\<close> of a \<open>DrawCommand\<close> is \<open>None\<close>, one canvas id, or the list
  \<open>[shaft, head]\<close> of an arrow.\<close>

datatype shape_handle = NoShape | Shape nat | Shapes "nat list"

record draw_command =
  dc_tool :: string
  dc_shape_id :: shape_handle
  dc_x1 :: real
  dc_y1 :: real
  dc_x2 :: real
  dc_y2 :: real
  dc_color :: string
  dc_thickness :: int

record text_command =
  tc_text :: string
  tc_x :: real
  tc_y :: real
  tc_color :: string
  tc_font :: "string \<times> int"
  tc_width :: real
  tc_height :: real
  tc_text_id :: "nat option"

datatype command = DrawCommand draw_command | TextCommand text_command

definition DrawCommand_init ::
  "string \<Rightarrow> shape_handle \<Rightarrow> real \<Rightarrow> real \<Rightarrow> real \<Rightarrow> real \<Rightarrow> string \<Rightarrow> int \<Rightarrow> draw_command" where
  "DrawCommand_init tool shape_id x1 y1 x2 y2 color thickness =
     \<lparr>dc_tool = tool, dc_shape_id = shape_id, dc_x1 = x1, dc_y1 = y1, dc_x2 = x2, dc_y2 = y2,
      dc_color = color, dc_thickness = thickness\<rparr>"

definition TextCommand_init ::
  "string \<Rightarrow> real \<Rightarrow> real \<Rightarrow> string \<Rightarrow> string \<times> int \<Rightarrow> real \<Rightarrow> real \<Rightarrow> text_command" where
  "TextCommand_init txt x y color font width height =
     \<lparr>tc_text = txt, tc_x = x, tc_y = y, tc_color = color, tc_font = font,
      tc_width = width, tc_height = height, tc_text_id = None\<rparr>"

text \<open>\<open>DrawCommand.execute\<close>: the command with its new \<open>shape_id\<close> (the value the
  method returns) and the canvas.\<close>

definition arrow_head_size :: "int \<Rightarrow> real" where
  "arrow_head_size thickness = real_of_int (max (thickness * 3) 8)"

definition DrawCommand_execute :: "draw_command \<Rightarrow> canvas \<Rightarrow> draw_command \<times> canvas" where
  "DrawCommand_execute c cv =
     (if dc_tool c = ''rectangle'' then
        (let (i, cv1) = create_rectangle cv (dc_x1 c) (dc_y1 c) (dc_x2 c) (dc_y2 c)
                          (dc_color c) [] (real_of_int (dc_thickness c)) [''drawing'']
         in (c\<lparr>dc_shape_id := Shape i\<rparr>, cv1))
      else if dc_tool c = ''arrow'' then
        (let sz = arrow_head_size (dc_thickness c);
             angle = atan2 (dc_y2 c - dc_y1 c) (dc_x2 c - dc_x1 c);
             x_diff = sz * 0.8 * cos angle;
             y_diff = sz * 0.8 * sin angle;
             (shaft, cv1) = create_line cv (dc_x1 c) (dc_y1 c) (dc_x2 c - x_diff) (dc_y2 c - y_diff)
                              (dc_color c) (real_of_int (dc_thickness c)) [''drawing''];
             (head, cv2) = create_polygon cv1
                              [dc_x2 c, dc_y2 c,
                               dc_x2 c - sz * cos (angle - pi / 6),
                               dc_y2 c - sz * sin (angle - pi / 6),
                               dc_x2 c - sz * cos (angle + pi / 6),
                               dc_y2 c - sz * sin (angle + pi / 6)]
                              (dc_color c) (dc_color c) [''drawing'']
         in (c\<lparr>dc_shape_id := Shapes [shaft, head]\<rparr>, cv2))
      else (c, cv))"

text \<open>\<open>DrawCommand.undo\<close>. \<open>canvas.delete(None)\<close> passes no tag or id to Tk, which
  then deletes nothing.\<close>

definition DrawCommand_undo :: "draw_command \<Rightarrow> canvas \<Rightarrow> draw_command \<times> canvas" where
  "DrawCommand_undo c cv =
     (case dc_shape_id c of
        Shapes ids \<Rightarrow> (c, fold (\<lambda>shape cv'. canvas_delete cv' (Id shape)) ids cv)
      | Shape i \<Rightarrow> (c, canvas_delete cv (Id i))
      | NoShape \<Rightarrow> (c, cv))"

definition TextCommand_execute :: "text_command \<Rightarrow> canvas \<Rightarrow> text_command \<times> canvas" where
  "TextCommand_execute c cv =
     (let (i, cv1) = create_text cv (tc_x c) (tc_y c) (Plain (tc_text c)) (tc_color c) (tc_font c)
                       (tc_width c) [''text'', ''drawing'']
      in (c\<lparr>tc_text_id := Some i\<rparr>, tag_raise cv1 (Id i)))"

text \<open>\<open>TextCommand.undo\<close>: \<open>if self.text_id\<close> is false for \<open>None\<close> and for 0.\<close>

definition TextCommand_undo :: "text_command \<Rightarrow> canvas \<Rightarrow> text_command \<times> canvas" where
  "TextCommand_undo c cv =
     (case tc_text_id c of
        None \<Rightarrow> (c, cv)
      | Some i \<Rightarrow> (if i = 0 then (c, cv) else (c\<lparr>tc_text_id := None\<rparr>, canvas_delete cv (Id i))))"

text \<open>Dynamic dispatch on the command's class.\<close>

fun execute :: "command \<Rightarrow> canvas \<Rightarrow> command \<times> canvas" where
  "execute (DrawCommand c) cv = (let (c', cv') = DrawCommand_execute c cv in (DrawCommand c', cv'))"
| "execute (TextCommand c) cv = (let (c', cv') = TextCommand_execute c cv in (TextCommand c', cv'))"

fun command_undo :: "command \<Rightarrow> canvas \<Rightarrow> command \<times> canvas" where
  "command_undo (DrawCommand c) cv = (let (c', cv') = DrawCommand_undo c cv in (DrawCommand c', cv'))"
| "command_undo (TextCommand c) cv = (let (c', cv') = TextCommand_undo c cv in (TextCommand c', cv'))"

subsection \<open>Pillow images\<close>

text \<open>An image is kept as the sequence of Pillow calls that built it, from the captured
  bytes on. Pillow's rasteriser is a function of its arguments, so two images built by
  the same calls hold the same bytes.\<close>

datatype pil_font = Truetype string int | LoadDefault

datatype image =
    Frombytes "real \<times> real" "nat list"
  | ImageCrop image box
  | ImageNew "real \<times> real"
  | ImagePaste image image point
  | DrawRectangle image box string int
  | DrawLine image "point list" string int
  | DrawPolygon image "point list" string
  | DrawText image point string string pil_font

fun image_size :: "image \<Rightarrow> real \<times> real" where
  "image_size (Frombytes sz bs) = sz"
| "image_size (ImageCrop im (l, t, r, b)) = (r - l, b - t)"
| "image_size (ImageNew sz) = sz"
| "image_size (ImagePaste dst src off) = image_size dst"
| "image_size (DrawRectangle im bx c w) = image_size im"
| "image_size (DrawLine im ps c w) = image_size im"
| "image_size (DrawPolygon im ps c) = image_size im"
| "image_size (DrawText im p s c f) = image_size im"

subsection \<open>utils.py\<close>

definition draw_pil_arrow :: "image \<Rightarrow> real \<Rightarrow> real \<Rightarrow> real \<Rightarrow> real \<Rightarrow> string \<Rightarrow> int \<Rightarrow> image" where
  "draw_pil_arrow draw x1 y1 x2 y2 fill width =
     (let angle = atan2 (y2 - y1) (x2 - x1);
          arrow_length = real_of_int (max (width * 3) 8);
          arrow_width = real_of_int (max (width * 2) 6);
          sin_angle = sin angle;
          cos_angle = cos angle;
          x_diff = arrow_length * cos_angle;
          y_diff = arrow_length * sin_angle;
          arrow_point1 = (x2 - x_diff + arrow_width * sin_angle, y2 - y_diff - arrow_width * cos_angle);
          arrow_point2 = (x2 - x_diff - arrow_width * sin_angle, y2 - y_diff + arrow_width * cos_angle)
      in DrawPolygon (DrawLine draw [(x1, y1), (x2 - x_diff, y2 - y_diff)] fill width)
           [(x2, y2), arrow_point1, arrow_point2] fill)"

subsection \<open>main.py: the session object\<close>

text \<open>The \<open>ttk.Text\<close> entry placed on the canvas: its content (\<open>get("1.0", "end-1c")\<close>)
  and its geometry (\<open>winfo_x\<close>, \<open>winfo_y\<close>, \<open>winfo_width\<close>, \<open>winfo_height\<close>).\<close>

record text_widget =
  tw_content :: string
  tw_x :: real
  tw_y :: real
  tw_width :: real
  tw_height :: real

text \<open>The fields of \<open>QuickDrawScreenshot\<close> that the annotation engine reads or writes.
  \<open>screen_width\<close>, \<open>screen_height\<close>, \<open>selection_rect\<close>, \<open>dimension_text\<close> and
  \<open>overlay_rectangles\<close> are set by \<open>setup_screenshot_canvas\<close> before any function
  below runs; the four overlay ids it creates are kept as a tuple.\<close>

record quickdraw =
  rect_canvas :: canvas
  text_entry :: "text_widget option"
  text_box :: nat
  start_x :: "real option"
  start_y :: "real option"
  end_x :: "real option"
  end_y :: "real option"
  screenshot :: "image option"
  full_screenshot :: "image option"
  screen_width :: real
  screen_height :: real
  current_tool :: string
  current_color :: string
  line_width :: int
  line_thickness :: int
  max_line_thickness :: int
  font_size :: int
  accent_color :: string
  selection_rect :: nat
  overlay_rectangles :: "nat \<times> nat \<times> nat \<times> nat"
  dimension_text :: nat
  is_drawing_mode :: bool
  is_screenshot_in_progress :: bool
  state :: string
  undo_stack :: "command list"
  redo_stack :: "command list"
  resize_handles :: "nat list"
  resizing :: "nat option"
  resize_start_x :: "real option"
  resize_start_y :: "real option"
  dragging :: bool
  drag_start_x :: "real option"
  drag_start_y :: "real option"
  last_update_time :: real
  update_interval :: real
  drawing_area :: "box option"

record event =
  ev_x :: real
  ev_y :: real

text \<open>\<open>__init__\<close> with the default settings. Fields that are \<open>None\<close> until the canvas
  is set up hold 0 here (no Tk item has id 0).\<close>

definition QuickDrawScreenshot_init :: quickdraw where
  "QuickDrawScreenshot_init =
     \<lparr>rect_canvas = Canvas, text_entry = None, text_box = 0,
      start_x = None, start_y = None, end_x = None, end_y = None,
      screenshot = None, full_screenshot = None, screen_width = 0, screen_height = 0,
      current_tool = ''move'', current_color = ''red'', line_width = 2, line_thickness = 2,
      max_line_thickness = 10, font_size = 12, accent_color = ''#007bff'',
      selection_rect = 0, overlay_rectangles = (0, 0, 0, 0), dimension_text = 0,
      is_drawing_mode = False, is_screenshot_in_progress = False, state = ''idle'',
      undo_stack = [], redo_stack = [],
      resize_handles = [], resizing = None, resize_start_x = None, resize_start_y = None,
      dragging = False, drag_start_x = None, drag_start_y = None,
      last_update_time = 0, update_interval = 1 / 60, drawing_area = None\<rparr>"

text \<open>\<open>color_callback\<close> of \<open>open_color_picker\<close>: the colour picker hands over the chosen
  colour, or \<open>None\<close> when it closes.\<close>

definition color_callback :: "quickdraw \<Rightarrow> string option \<Rightarrow> quickdraw" where
  "color_callback s color =
     (case color of
        None \<Rightarrow> s
      | Some c \<Rightarrow> (if c \<noteq> [] then s\<lparr>current_color := c\<rparr> else s))"

definition set_tool :: "quickdraw \<Rightarrow> string \<Rightarrow> quickdraw" where
  "set_tool s tool = s\<lparr>current_tool := tool\<rparr>"

text \<open>\<open>setup_screenshot_canvas\<close>: \<open>w\<close> and \<open>h\<close> are the extent of the monitors and
  \<open>grab\<close> is the captured screen.\<close>

definition setup_screenshot_canvas :: "quickdraw \<Rightarrow> real \<Rightarrow> real \<Rightarrow> image \<Rightarrow> quickdraw" where
  "setup_screenshot_canvas s w h grab =
     (let (img, cv1) = create_image Canvas 0 0;
          (sel, cv2) = create_rectangle cv1 0 0 0 0 (accent_color s) [] 2 [];
          (o0, cv3) = create_rectangle cv2 0 0 w h ''black'' ''black'' 1 [''overlay''];
          (o1, cv4) = create_rectangle cv3 0 0 w h ''black'' ''black'' 1 [''overlay''];
          (o2, cv5) = create_rectangle cv4 0 0 w h ''black'' ''black'' 1 [''overlay''];
          (o3, cv6) = create_rectangle cv5 0 0 w h ''black'' ''black'' 1 [''overlay''];
          (dim, cv7) = create_text cv6 0 0 (Plain []) ''white'' (''Segoe UI'', 10) 0 [''dimensions'']
      in s\<lparr>screen_width := w, screen_height := h, full_screenshot := Some grab,
           rect_canvas := itemconfig cv7 (Id dim) (\<lambda>it. it\<lparr>item_state := ''normal''\<rparr>),
           selection_rect := sel, overlay_rectangles := (o0, o1, o2, o3), dimension_text := dim\<rparr>)"

definition update_overlay :: "quickdraw \<Rightarrow> real \<Rightarrow> real \<Rightarrow> real \<Rightarrow> real \<Rightarrow> quickdraw" where
  "update_overlay s x1 y1 x2 y2 =
     (let (o0, o1, o2, o3) = overlay_rectangles s;
          cv1 = set_coords (rect_canvas s) (Id o0) [0, 0, screen_width s, y1];
          cv2 = set_coords cv1 (Id o1) [0, y1, x1, y2];
          cv3 = set_coords cv2 (Id o2) [x2, y1, screen_width s, y2];
          cv4 = set_coords cv3 (Id o3) [0, y2, screen_width s, screen_height s];
          cv5 = fold (\<lambda>rect cv. itemconfig cv (Id rect) (\<lambda>it. it\<lparr>item_fill := ''black''\<rparr>))
                  [o0, o1, o2, o3] cv4;
          width = x2 - x1;
          height = y2 - y1;
          cv6 = set_coords cv5 (Id (dimension_text s)) [(x1 + x2) / 2, (y1 + y2) / 2];
          cv7 = itemconfig cv6 (Id (dimension_text s))
                  (\<lambda>it. it\<lparr>item_label := Dimensions width height, item_state := ''normal''\<rparr>)
      in s\<lparr>rect_canvas := cv7\<rparr>)"

text \<open>\<open>update_selection\<close>; \<open>now\<close> is the value of \<open>time.monotonic()\<close>.\<close>

definition update_selection :: "quickdraw \<Rightarrow> real \<Rightarrow> quickdraw" where
  "update_selection s now =
     (case (start_x s, start_y s, end_x s, end_y s) of
        (Some sx, Some sy, Some ex, Some ey) \<Rightarrow>
          (if now - last_update_time s < update_interval s then s
           else
             (let s1 = s\<lparr>last_update_time := now\<rparr>;
                  x1 = min sx ex; y1 = min sy ey;
                  x2 = max sx ex; y2 = max sy ey;
                  s2 = s1\<lparr>rect_canvas := set_coords (rect_canvas s1) (Id (selection_rect s1)) [x1, y1, x2, y2]\<rparr>
              in update_overlay s2 x1 y1 x2 y2))
      | _ \<Rightarrow> s)"

definition on_button_press :: "quickdraw \<Rightarrow> real \<Rightarrow> event \<Rightarrow> quickdraw" where
  "on_button_press s now e =
     update_selection (s\<lparr>start_x := Some (ev_x e), end_x := Some (ev_x e),
                         start_y := Some (ev_y e), end_y := Some (ev_y e)\<rparr>) now"

definition on_move_press :: "quickdraw \<Rightarrow> real \<Rightarrow> event \<Rightarrow> quickdraw" where
  "on_move_press s now e =
     update_selection (s\<lparr>end_x := Some (ev_x e), end_y := Some (ev_y e)\<rparr>) now"

text \<open>\<open>create_resize_handles\<close>: one 10 by 10 square per corner, tagged \<open>handle0\<close> to
  \<open>handle3\<close>.\<close>

fun create_handles :: "canvas \<Rightarrow> (string \<times> point) list \<Rightarrow> nat list \<times> canvas" where
  "create_handles cv [] = ([], cv)"
| "create_handles cv ((tg, (x, y)) # rest) =
     (let (handle, cv1) = create_rectangle cv (x - 10 / 2) (y - 10 / 2) (x + 10 / 2) (y + 10 / 2)
                            ''black'' ''white'' 1 [tg];
          (handles, cv2) = create_handles cv1 rest
      in (handle # handles, cv2))"

definition create_resize_handles :: "quickdraw \<Rightarrow> real \<Rightarrow> real \<Rightarrow> real \<Rightarrow> real \<Rightarrow> quickdraw" where
  "create_resize_handles s x1 y1 x2 y2 =
     (let corners = [(x1, y1), (x2, y1), (x2, y2), (x1, y2)];
          (handles, cv) = create_handles (rect_canvas s)
                            (zip [''handle0'', ''handle1'', ''handle2'', ''handle3''] corners)
      in s\<lparr>resize_handles := handles, rect_canvas := cv\<rparr>)"

definition update_resize_handles :: "quickdraw \<Rightarrow> real \<Rightarrow> real \<Rightarrow> real \<Rightarrow> real \<Rightarrow> quickdraw" where
  "update_resize_handles s x1 y1 x2 y2 =
     (let corners = [(x1, y1), (x2, y1), (x2, y2), (x1, y2)]
      in s\<lparr>rect_canvas :=
             fold (\<lambda>(handle, (x, y)) cv.
                     set_coords cv (Id handle) [x - 10 / 2, y - 10 / 2, x + 10 / 2, y + 10 / 2])
               (zip (resize_handles s) corners) (rect_canvas s)\<rparr>)"

definition setup_drawing_mode :: "quickdraw \<Rightarrow> real \<Rightarrow> real \<Rightarrow> real \<Rightarrow> real \<Rightarrow> quickdraw" where
  "setup_drawing_mode s x1 y1 x2 y2 =
     (let s1 = s\<lparr>rect_canvas := itemconfig (rect_canvas s) (Id (dimension_text s))
                                   (\<lambda>it. it\<lparr>item_state := ''hidden''\<rparr>)\<rparr>;
          s2 = s1\<lparr>drawing_area := Some (x1, y1, x2, y2), is_drawing_mode := True\<rparr>
      in create_resize_handles s2 x1 y1 x2 y2)"

text \<open>\<open>on_button_release\<close>. The \<open>try\<close> block logs any exception and returns; the only
  one the model can raise there is the \<open>AttributeError\<close> of \<open>None.crop\<close>.\<close>

definition on_button_release :: "quickdraw \<Rightarrow> real \<Rightarrow> event \<Rightarrow> quickdraw" where
  "on_button_release s now e =
     (case (start_x s, start_y s) of
        (Some sx, Some sy) \<Rightarrow>
          (let ex = ev_x e; ey = ev_y e;
               (ex, ey) = (if ex = sx \<and> ey = sy then (ex + 1, ey + 1) else (ex, ey));
               s1 = update_selection (s\<lparr>end_x := Some ex, end_y := Some ey\<rparr>) now;
               x1 = min sx ex; y1 = min sy ey;
               x2 = max sx ex; y2 = max sy ey
           in case full_screenshot s1 of
                None \<Rightarrow> s1
              | Some full \<Rightarrow>
                  (setup_drawing_mode (s1\<lparr>screenshot := Some (ImageCrop full (x1, y1, x2, y2))\<rparr>)
                     x1 y1 x2 y2)
                  \<lparr>state := ''drawing'', is_screenshot_in_progress := False\<rparr>)
      | _ \<Rightarrow> s)"

definition drag_selection :: "quickdraw \<Rightarrow> real \<Rightarrow> real \<Rightarrow> py_error + quickdraw" where
  "drag_selection s x y =
     (if \<not> dragging s then Inr s
      else case (drag_start_x s, drag_start_y s, drawing_area s) of
        (Some sx, Some sy, Some (x1, y1, x2, y2)) \<Rightarrow>
          (let dx0 = x - sx;
               dy0 = y - sy;
               dx = (if x1 + dx0 < 0 then - x1
                     else if x2 + dx0 > screen_width s then screen_width s - x2 else dx0);
               dy = (if y1 + dy0 < 0 then - y1
                     else if y2 + dy0 > screen_height s then screen_height s - y2 else dy0);
               new_x1 = x1 + dx; new_y1 = y1 + dy; new_x2 = x2 + dx; new_y2 = y2 + dy;
               cv1 = set_coords (rect_canvas s) (Id (selection_rect s)) [new_x1, new_y1, new_x2, new_y2];
               cv2 = fold (\<lambda>item cv. canvas_move cv (Id item) dx dy)
                       (find_withtag cv1 (Tag ''drawing'')) cv1;
               s1 = update_resize_handles (s\<lparr>rect_canvas := cv2\<rparr>) new_x1 new_y1 new_x2 new_y2;
               s2 = s1\<lparr>drawing_area := Some (new_x1, new_y1, new_x2, new_y2)\<rparr>;
               s3 = update_overlay s2 new_x1 new_y1 new_x2 new_y2;
               s4 = s3\<lparr>rect_canvas := itemconfig (rect_canvas s3) (Id (dimension_text s3))
                                         (\<lambda>it. it\<lparr>item_state := ''hidden''\<rparr>)\<rparr>
           in Inr (s4\<lparr>drag_start_x := Some x, drag_start_y := Some y\<rparr>))
      | _ \<Rightarrow> Inl TypeError)"

text \<open>\<open>resize_selection\<close>. Unpacking the coordinates of a selection rectangle that is not
  on the canvas raises \<open>ValueError\<close>.\<close>

definition resize_selection :: "quickdraw \<Rightarrow> real \<Rightarrow> real \<Rightarrow> py_error + quickdraw" where
  "resize_selection s x y =
     (case get_coords (rect_canvas s) (Id (selection_rect s)) of
        [cx1, cy1, cx2, cy2] \<Rightarrow>
          (let (x1, y1, x2, y2) =
                 (if resizing s = Some 0 then (x, y, cx2, cy2)
                  else if resizing s = Some 1 then (cx1, y, x, cy2)
                  else if resizing s = Some 2 then (cx1, cy1, x, y)
                  else if resizing s = Some 3 then (x, cy1, cx2, y)
                  else (cx1, cy1, cx2, cy2));
               (x1, x2) = (min x1 x2, max x1 x2);
               (y1, y2) = (min y1 y2, max y1 y2);
               s1 = s\<lparr>rect_canvas := set_coords (rect_canvas s) (Id (selection_rect s)) [x1, y1, x2, y2]\<rparr>;
               s2 = update_resize_handles s1 x1 y1 x2 y2;
               s3 = update_overlay s2 x1 y1 x2 y2;
               s4 = s3\<lparr>drawing_area := Some (x1, y1, x2, y2)\<rparr>;
               width = \<bar>x2 - x1\<bar>;
               height = \<bar>y2 - y1\<bar>;
               cv1 = itemconfig (rect_canvas s4) (Id (dimension_text s4))
                       (\<lambda>it. it\<lparr>item_label := Dimensions width height, item_state := ''normal''\<rparr>);
               cv2 = set_coords cv1 (Id (dimension_text s4)) [(x1 + x2) / 2, (y1 + y2) / 2]
           in Inr (s4\<lparr>rect_canvas := cv2\<rparr>))
      | _ \<Rightarrow> Inl ValueError)"

definition point_in_drawing_area :: "quickdraw \<Rightarrow> real \<Rightarrow> real \<Rightarrow> py_error + bool" where
  "point_in_drawing_area s x y =
     (case drawing_area s of
        Some (x1, y1, x2, y2) \<Rightarrow> Inr (x1 \<le> x \<and> x \<le> x2 \<and> y1 \<le> y \<and> y \<le> y2)
      | None \<Rightarrow> Inl TypeError)"

definition start_draw :: "quickdraw \<Rightarrow> event \<Rightarrow> py_error + quickdraw" where
  "start_draw s e =
     (case drawing_area s of
        Some (x1, y1, x2, y2) \<Rightarrow> Inr (s\<lparr>start_x := Some (ev_x e - x1), start_y := Some (ev_y e - y1)\<rparr>)
      | None \<Rightarrow> Inl TypeError)"

text \<open>\<open>draw_arrow\<close>: the arrow of the live preview.\<close>

definition draw_arrow :: "quickdraw \<Rightarrow> real \<Rightarrow> real \<Rightarrow> real \<Rightarrow> real \<Rightarrow> string list \<Rightarrow> quickdraw" where
  "draw_arrow s x1 y1 x2 y2 tags =
     (let angle = atan2 (y2 - y1) (x2 - x1);
          arrow_length = real_of_int (max (line_thickness s * 3) 8);
          x_diff = arrow_length * cos angle;
          y_diff = arrow_length * sin angle;
          (shaft, cv1) = create_line (rect_canvas s) x1 y1 (x2 - x_diff) (y2 - y_diff)
                           (current_color s) (real_of_int (line_thickness s)) tags;
          (head, cv2) = create_polygon cv1
                           [x2, y2,
                            x2 - x_diff + real_of_int (line_thickness s * 2) * sin angle,
                            y2 - y_diff - real_of_int (line_thickness s * 2) * cos angle,
                            x2 - x_diff - real_of_int (line_thickness s * 2) * sin angle,
                            y2 - y_diff + real_of_int (line_thickness s * 2) * cos angle]
                           (current_color s) [] tags
      in s\<lparr>rect_canvas := cv2\<rparr>)"

definition draw_shape :: "quickdraw \<Rightarrow> event \<Rightarrow> py_error + quickdraw" where
  "draw_shape s e =
     (case start_x s of
        None \<Rightarrow> Inr s
      | Some sx \<Rightarrow>
          (case point_in_drawing_area s (ev_x e) (ev_y e) of
             Inl err \<Rightarrow> Inl err
           | Inr False \<Rightarrow> Inr s
           | Inr True \<Rightarrow>
               (case drawing_area s of
                  None \<Rightarrow> Inl TypeError
                | Some (x1, y1, x2, y2) \<Rightarrow>
                    (case start_y s of
                       None \<Rightarrow>
                         (if current_tool s = ''rectangle'' \<or> current_tool s = ''arrow''
                          then Inl TypeError
                          else Inr (s\<lparr>rect_canvas := canvas_delete (rect_canvas s) (Tag ''temp_shape'')\<rparr>))
                     | Some sy \<Rightarrow>
                         (let s1 = s\<lparr>rect_canvas := canvas_delete (rect_canvas s) (Tag ''temp_shape'')\<rparr>;
                              current_x = ev_x e - x1;
                              current_y = ev_y e - y1
                          in if current_tool s1 = ''rectangle'' then
                               (let draw_x1 = min sx current_x; draw_y1 = min sy current_y;
                                    draw_x2 = max sx current_x; draw_y2 = max sy current_y;
                                    (i, cv) = create_rectangle (rect_canvas s1)
                                                (draw_x1 + x1) (draw_y1 + y1) (draw_x2 + x1) (draw_y2 + y1)
                                                (current_color s1) [] (real_of_int (line_thickness s1))
                                                [''temp_shape'', ''drawing'']
                                in Inr (s1\<lparr>rect_canvas := cv\<rparr>))
                             else if current_tool s1 = ''arrow'' then
                               Inr (draw_arrow s1 (sx + x1) (sy + y1) (current_x + x1) (current_y + y1)
                                      [''temp_shape'', ''drawing''])
                             else Inr s1)))))"

text \<open>\<open>end_draw\<close> commits a \<open>DrawCommand\<close>. A tool other than rectangle and arrow leaves
  \<open>shape_id\<close> at \<open>None\<close>, and \<open>addtag_withtag("drawing", None)\<close> is then a Tcl call
  without its last argument.\<close>

definition end_draw :: "quickdraw \<Rightarrow> event \<Rightarrow> py_error + quickdraw" where
  "end_draw s e =
     (case start_x s of
        None \<Rightarrow> Inr s
      | Some sx \<Rightarrow>
          (case point_in_drawing_area s (ev_x e) (ev_y e) of
             Inl err \<Rightarrow> Inl err
           | Inr False \<Rightarrow> Inr s
           | Inr True \<Rightarrow>
               (case (drawing_area s, start_y s) of
                  (Some (x1, y1, x2, y2), Some sy) \<Rightarrow>
                    (let cv0 = canvas_delete (rect_canvas s) (Tag ''temp_shape'');
                         current_x = ev_x e - x1;
                         current_y = ev_y e - y1;
                         command = DrawCommand_init (current_tool s) NoShape
                                     (sx + x1) (sy + y1) (current_x + x1) (current_y + y1)
                                     (current_color s) (line_thickness s);
                         (command1, cv1) = DrawCommand_execute command cv0
                     in case dc_shape_id command1 of
                          NoShape \<Rightarrow> Inl TclError
                        | Shape sid \<Rightarrow>
                            Inr (s\<lparr>rect_canvas := addtag_withtag cv1 ''drawing'' (Id sid),
                                   undo_stack := undo_stack s @ [DrawCommand command1],
                                   redo_stack := [], start_x := None, start_y := None\<rparr>)
                        | Shapes sids \<Rightarrow>
                            Inr (s\<lparr>rect_canvas :=
                                     fold (\<lambda>sid cv. addtag_withtag cv ''drawing'' (Id sid)) sids cv1,
                                   undo_stack := undo_stack s @ [DrawCommand command1],
                                   redo_stack := [], start_x := None, start_y := None\<rparr>))
                | _ \<Rightarrow> Inl TypeError)))"

definition end_text_entry :: "quickdraw \<Rightarrow> quickdraw" where
  "end_text_entry s =
     (case text_entry s of
        None \<Rightarrow> s
      | Some entry \<Rightarrow>
          (let s1 =
                 (if tw_content entry \<noteq> [] then
                    (let command = TextCommand_init (tw_content entry) (tw_x entry) (tw_y entry)
                                     (current_color s) (''TkDefaultFont'', font_size s)
                                     (tw_width entry) (tw_height entry);
                         (command1, cv) = TextCommand_execute command (rect_canvas s)
                     in s\<lparr>rect_canvas := cv, undo_stack := undo_stack s @ [TextCommand command1],
                          redo_stack := []\<rparr>)
                  else s)
           in s1\<lparr>text_entry := None,
                 rect_canvas := canvas_delete (rect_canvas s1) (Tag ''text_box'')\<rparr>))"

text \<open>\<open>start_text_entry\<close> and \<open>finalize_text_box\<close>: the dashed box that is dragged out
  and the entry widget placed over it.\<close>

definition start_text_entry :: "quickdraw \<Rightarrow> event \<Rightarrow> py_error + quickdraw" where
  "start_text_entry s e =
     (case point_in_drawing_area s (ev_x e) (ev_y e) of
        Inl err \<Rightarrow> Inl err
      | Inr False \<Rightarrow> Inr s
      | Inr True \<Rightarrow>
          (let s1 = (if text_entry s \<noteq> None then end_text_entry s else s);
               s2 = s1\<lparr>start_x := Some (ev_x e), start_y := Some (ev_y e)\<rparr>;
               (i, cv) = create_rectangle (rect_canvas s2) (ev_x e) (ev_y e) (ev_x e) (ev_y e)
                           (current_color s2) [] 1 [''text_box'']
           in Inr (s2\<lparr>rect_canvas := cv, text_box := i\<rparr>)))"

definition resize_text_box :: "quickdraw \<Rightarrow> event \<Rightarrow> py_error + quickdraw" where
  "resize_text_box s e =
     (case (start_x s, start_y s) of
        (Some sx, Some sy) \<Rightarrow>
          Inr (s\<lparr>rect_canvas := set_coords (rect_canvas s) (Id (text_box s)) [sx, sy, ev_x e, ev_y e]\<rparr>)
      | _ \<Rightarrow> Inl TclError)"

definition finalize_text_box :: "quickdraw \<Rightarrow> event \<Rightarrow> py_error + quickdraw" where
  "finalize_text_box s e =
     (case get_coords (rect_canvas s) (Id (text_box s)) of
        [x1, y1, x2, y2] \<Rightarrow>
          Inr (s\<lparr>text_entry := Some \<lparr>tw_content = [], tw_x = min x1 x2, tw_y = min y1 y2,
                                      tw_width = \<bar>x2 - x1\<bar>, tw_height = \<bar>y2 - y1\<bar>\<rparr>\<rparr>)
      | _ \<Rightarrow> Inl ValueError)"

text \<open>Typing into the entry widget is Tk's own work; it replaces the widget's content.\<close>

definition type_into_entry :: "quickdraw \<Rightarrow> string \<Rightarrow> quickdraw" where
  "type_into_entry s txt =
     (case text_entry s of
        None \<Rightarrow> s
      | Some entry \<Rightarrow> s\<lparr>text_entry := Some (entry\<lparr>tw_content := txt\<rparr>)\<rparr>)"

definition undo :: "quickdraw \<Rightarrow> quickdraw" where
  "undo s =
     (if undo_stack s \<noteq> [] then
        (let command = last (undo_stack s);
             (command1, cv) = command_undo command (rect_canvas s)
         in s\<lparr>undo_stack := butlast (undo_stack s),
              redo_stack := redo_stack s @ [command1],
              rect_canvas := canvas_delete cv (Tag ''temp_shape''),
              start_x := None, start_y := None\<rparr>)
      else s)"

definition redo :: "quickdraw \<Rightarrow> quickdraw" where
  "redo s =
     (if redo_stack s \<noteq> [] then
        (let command = last (redo_stack s);
             (command1, cv) = execute command (rect_canvas s)
         in s\<lparr>redo_stack := butlast (redo_stack s),
              undo_stack := undo_stack s @ [command1],
              rect_canvas := canvas_delete cv (Tag ''temp_shape''),
              start_x := None, start_y := None\<rparr>)
      else s)"

text \<open>\<open>on_press\<close>: resize handles first, then the tool.\<close>

fun hit_handle :: "canvas \<Rightarrow> real \<Rightarrow> real \<Rightarrow> nat \<Rightarrow> nat list \<Rightarrow> py_error + nat option" where
  "hit_handle cv x y i [] = Inr None"
| "hit_handle cv x y i (handle # rest) =
     (case get_coords cv (Id handle) of
        [c0, c1, c2, c3] \<Rightarrow>
          (if c0 \<le> x \<and> x \<le> c2 \<and> c1 \<le> y \<and> y \<le> c3 then Inr (Some i)
           else hit_handle cv x y (Suc i) rest)
      | _ \<Rightarrow> Inl IndexError)"

definition on_press :: "quickdraw \<Rightarrow> event \<Rightarrow> py_error + quickdraw" where
  "on_press s e =
     (case hit_handle (rect_canvas s) (ev_x e) (ev_y e) 0 (resize_handles s) of
        Inl err \<Rightarrow> Inl err
      | Inr (Some i) \<Rightarrow>
          Inr (s\<lparr>resizing := Some i, resize_start_x := Some (ev_x e), resize_start_y := Some (ev_y e),
                 rect_canvas := itemconfig (rect_canvas s) (Id (dimension_text s))
                                  (\<lambda>it. it\<lparr>item_state := ''normal''\<rparr>)\<rparr>)
      | Inr None \<Rightarrow>
          (if current_tool s = ''move'' then
             (case drawing_area s of
                None \<Rightarrow> Inl TypeError
              | Some (x1, y1, x2, y2) \<Rightarrow>
                  (if x1 \<le> ev_x e \<and> ev_x e \<le> x2 \<and> y1 \<le> ev_y e \<and> ev_y e \<le> y2
                   then Inr (s\<lparr>dragging := True, drag_start_x := Some (ev_x e),
                                drag_start_y := Some (ev_y e)\<rparr>)
                   else Inr s))
           else if current_tool s = ''text'' then start_text_entry s e
           else start_draw s e))"

text \<open>\<open>on_release\<close>; the toolbar is not modelled.\<close>

definition on_release :: "quickdraw \<Rightarrow> event \<Rightarrow> py_error + quickdraw" where
  "on_release s e =
     (if resizing s \<noteq> None then
        (case resize_selection s (ev_x e) (ev_y e) of
           Inl err \<Rightarrow> Inl err
         | Inr s1 \<Rightarrow>
             Inr (s1\<lparr>resizing := None, resize_start_x := None, resize_start_y := None,
                     rect_canvas := itemconfig (rect_canvas s1) (Id (dimension_text s1))
                                      (\<lambda>it. it\<lparr>item_state := ''hidden''\<rparr>)\<rparr>))
      else if dragging s \<and> current_tool s = ''move'' then
        (case drag_selection s (ev_x e) (ev_y e) of
           Inl err \<Rightarrow> Inl err
         | Inr s1 \<Rightarrow> Inr (s1\<lparr>dragging := False, drag_start_x := None, drag_start_y := None\<rparr>))
      else if current_tool s \<noteq> ''text'' \<and> current_tool s \<noteq> ''move'' then end_draw s e
      else Inr s)"

text \<open>\<open>copy_to_clipboard\<close>: the image handed to \<open>copy_image_to_clipboard\<close>, or nothing
  outside drawing mode. \<open>fonts\<close> tells which font files \<open>ImageFont.truetype\<close> can load.
  The reset of the session that follows the copy is not modelled.\<close>

fun apply_command :: "(string \<Rightarrow> bool) \<Rightarrow> box \<Rightarrow> real \<Rightarrow> command \<Rightarrow> image \<Rightarrow> image" where
  "apply_command fonts (bx1, by1, bx2, by2) stroke_width (DrawCommand c) draw =
     (let adjusted_x1 = dc_x1 c - bx1 + stroke_width;
          adjusted_y1 = dc_y1 c - by1 + stroke_width;
          adjusted_x2 = dc_x2 c - bx1 + stroke_width;
          adjusted_y2 = dc_y2 c - by1 + stroke_width;
          x0 = min adjusted_x1 adjusted_x2; y0 = min adjusted_y1 adjusted_y2;
          x1' = max adjusted_x1 adjusted_x2; y1' = max adjusted_y1 adjusted_y2
      in if dc_tool c = ''rectangle'' then
           DrawRectangle draw (x0, y0, x1', y1') (dc_color c) (dc_thickness c)
         else if dc_tool c = ''arrow'' then
           draw_pil_arrow draw adjusted_x1 adjusted_y1 adjusted_x2 adjusted_y2
             (dc_color c) (dc_thickness c)
         else draw)"
| "apply_command fonts (bx1, by1, bx2, by2) stroke_width (TextCommand c) draw =
     (let adjusted_x = tc_x c - bx1 + stroke_width;
          adjusted_y = tc_y c - by1 + stroke_width;
          font_obj = (if fonts ''meiryo.ttc'' \<and> 0 < snd (tc_font c)
                      then Truetype ''meiryo.ttc'' (snd (tc_font c)) else LoadDefault)
      in DrawText draw (adjusted_x, adjusted_y) (tc_text c) (tc_color c) font_obj)"

definition copy_to_clipboard :: "(string \<Rightarrow> bool) \<Rightarrow> quickdraw \<Rightarrow> py_error + image option" where
  "copy_to_clipboard fonts s =
     (if \<not> is_drawing_mode s then Inr None
      else case drawing_area s of
        None \<Rightarrow> Inl TypeError
      | Some (x1, y1, x2, y2) \<Rightarrow>
          (case full_screenshot s of
             None \<Rightarrow> Inl AttributeError
           | Some full \<Rightarrow>
               (let bbox = (min x1 x2, min y1 y2, max x1 x2, max y1 y2);
                    temp_image = ImageCrop full bbox;
                    stroke_width = 1;
                    new_size = (fst (image_size temp_image) + 2 * stroke_width,
                                snd (image_size temp_image) + 2 * stroke_width);
                    stroke_image = ImagePaste (ImageNew new_size) temp_image (stroke_width, stroke_width);
                    draw = DrawRectangle stroke_image (0, 0, fst new_size - 1, snd new_size - 1)
                             (current_color s) 1
                in Inr (Some (fold (apply_command fonts bbox stroke_width) (undo_stack s) draw)))))"

subsection \<open>The session of the scenarios\<close>

text \<open>A 200 by 200 screen is captured and the selection is dragged from (0, 0) to
  (100, 100): the session is then in drawing mode with the drawing area
  (0, 0)-(100, 100), the move tool, the colour red and the stroke width 2.\<close>

definition scenario_session :: quickdraw where
  "scenario_session =
     on_button_release
       (on_button_press (setup_screenshot_canvas QuickDrawScreenshot_init 200 200 (Frombytes (200, 200) []))
          1 \<lparr>ev_x = 0, ev_y = 0\<rparr>)
       2 \<lparr>ev_x = 100, ev_y = 100\<rparr>"

text \<open>Event handlers run one after another; an exception ends the sequence.\<close>

definition and_then :: "py_error + 'a \<Rightarrow> ('a \<Rightarrow> py_error + 'b) \<Rightarrow> py_error + 'b" where
  "and_then m f = (case m of Inl err \<Rightarrow> Inl err | Inr x \<Rightarrow> f x)"

text \<open>What the canvas shows of the annotations: the coordinates of every item tagged
  \<open>drawing\<close>, from the bottom one to the top one.\<close>

definition drawing_coords :: "quickdraw \<Rightarrow> real list list" where
  "drawing_coords s =
     map (\<lambda>i. get_coords (rect_canvas s) (Id i)) (find_withtag (rect_canvas s) (Tag ''drawing''))"

text \<open>With the rectangle tool, a press at (10, 10) and a release at (50, 50) commit the
  rectangle (10, 10)-(50, 50).\<close>

definition committed_session :: "py_error + quickdraw" where
  "committed_session =
     and_then (on_press (set_tool scenario_session ''rectangle'') \<lparr>ev_x = 10, ev_y = 10\<rparr>)
       (\<lambda>s. on_release s \<lparr>ev_x = 50, ev_y = 50\<rparr>)"

text \<open>Then, with the move tool, the drawing area is grabbed at (60, 60) and released at
  (80, 60): a drag by (20, 0).\<close>

definition dragged_session :: "py_error + quickdraw" where
  "dragged_session =
     and_then committed_session (\<lambda>s.
     and_then (on_press (set_tool s ''move'') \<lparr>ev_x = 60, ev_y = 60\<rparr>)
       (\<lambda>s. on_release s \<lparr>ev_x = 80, ev_y = 60\<rparr>))"

text \<open>After the commit and an undo: a new press at (20, 20) with the rectangle tool, and a
  text box dragged from (20, 20) to (60, 40) with the text tool.\<close>

definition redrawing_session :: "py_error + quickdraw" where
  "redrawing_session =
     and_then committed_session (\<lambda>s. on_press (undo s) \<lparr>ev_x = 20, ev_y = 20\<rparr>)"

definition text_box_session :: "py_error + quickdraw" where
  "text_box_session =
     and_then committed_session (\<lambda>s.
     and_then (on_press (set_tool (undo s) ''text'') \<lparr>ev_x = 20, ev_y = 20\<rparr>) (\<lambda>s.
     and_then (resize_text_box s \<lparr>ev_x = 60, ev_y = 40\<rparr>) (\<lambda>s.
     finalize_text_box s \<lparr>ev_x = 60, ev_y = 40\<rparr>)))"

text \<open>The rectangle item and command of these sessions, and the display list below
  the annotations after the drag.\<close>

definition rect_item :: "nat \<Rightarrow> real list \<Rightarrow> canvas_item" where
  "rect_item i cs = \<lparr>item_id = i, item_type = rectangle_item, item_coords = cs,
       item_outline = ''red'', item_fill = [], item_width = 2, item_label = Plain [],
       item_font = (''TkDefaultFont'', 0), item_state = ''normal'', item_tags = [''drawing'']\<rparr>"

definition rect_cmd :: "nat \<Rightarrow> command" where
  "rect_cmd i = DrawCommand \<lparr>dc_tool = ''rectangle'', dc_shape_id = Shape i, dc_x1 = 10, dc_y1 = 10,
      dc_x2 = 50, dc_y2 = 50, dc_color = ''red'', dc_thickness = 2\<rparr>"

definition moved_list :: "canvas_item list" where
  "moved_list = [
        \<lparr>item_id = 1, item_type = image_item, item_coords = [0, 0],
           item_outline = [], item_fill = [], item_width = 0,
           item_label = Plain [], item_font = (''TkDefaultFont'', 0),
           item_state = ''normal'', item_tags = []\<rparr>,
        \<lparr>item_id = 2, item_type = rectangle_item,
           item_coords = [20, 0, 120, 100], item_outline = ''#007bff'',
           item_fill = [], item_width = 2, item_label = Plain [],
           item_font = (''TkDefaultFont'', 0), item_state = ''normal'',
           item_tags = []\<rparr>,
        \<lparr>item_id = 3, item_type = rectangle_item,
           item_coords = [0, 0, 200, 0], item_outline = ''black'',
           item_fill = ''black'', item_width = 1, item_label = Plain [],
           item_font = (''TkDefaultFont'', 0), item_state = ''normal'',
           item_tags = [''overlay'']\<rparr>,
        \<lparr>item_id = 4, item_type = rectangle_item,
           item_coords = [0, 0, 20, 100], item_outline = ''black'',
           item_fill = ''black'', item_width = 1, item_label = Plain [],
           item_font = (''TkDefaultFont'', 0), item_state = ''normal'',
           item_tags = [''overlay'']\<rparr>,
        \<lparr>item_id = 5, item_type = rectangle_item,
           item_coords = [120, 0, 200, 100], item_outline = ''black'',
           item_fill = ''black'', item_width = 1, item_label = Plain [],
           item_font = (''TkDefaultFont'', 0), item_state = ''normal'',
           item_tags = [''overlay'']\<rparr>,
        \<lparr>item_id = 6, item_type = rectangle_item,
           item_coords = [0, 100, 200, 200], item_outline = ''black'',
           item_fill = ''black'', item_width = 1, item_label = Plain [],
           item_font = (''TkDefaultFont'', 0), item_state = ''normal'',
           item_tags = [''overlay'']\<rparr>,
        \<lparr>item_id = 7, item_type = text_item, item_coords = [70, 50],
           item_outline = [], item_fill = ''white'', item_width = 0,
           item_label = Dimensions 100 100, item_font = (''Segoe UI'', 10),
           item_state = ''hidden'', item_tags = [''dimensions'']\<rparr>,
        \<lparr>item_id = 8, item_type = rectangle_item,
           item_coords = [15, - 5, 25, 5], item_outline = ''black'',
           item_fill = ''white'', item_width = 1, item_label = Plain [],
           item_font = (''TkDefaultFont'', 0), item_state = ''normal'',
           item_tags = [''handle0'']\<rparr>,
        \<lparr>item_id = 9, item_type = rectangle_item,
           item_coords = [115, - 5, 125, 5], item_outline = ''black'',
           item_fill = ''white'', item_width = 1, item_label = Plain [],
           item_font = (''TkDefaultFont'', 0), item_state = ''normal'',
           item_tags = [''handle1'']\<rparr>,
        \<lparr>item_id = 10, item_type = rectangle_item,
           item_coords = [115, 95, 125, 105], item_outline = ''black'',
           item_fill = ''white'', item_width = 1, item_label = Plain [],
           item_font = (''TkDefaultFont'', 0), item_state = ''normal'',
           item_tags = [''handle2'']\<rparr>,
        \<lparr>item_id = 11, item_type = rectangle_item,
           item_coords = [15, 95, 25, 105], item_outline = ''black'',
           item_fill = ''white'', item_width = 1, item_label = Plain [],
           item_font = (''TkDefaultFont'', 0), item_state = ''normal'',
           item_tags = [''handle3'']\<rparr>]"

text \<open>The canvas items the session keeps for its own display: the selection rectangle,
  the dimension readout, the four overlay panels and the resize handles.\<close>

definition bookkeeping_items :: "quickdraw \<Rightarrow> nat set" where
  "bookkeeping_items s =
     (case overlay_rectangles s of
        (o0, o1, o2, o3) \<Rightarrow>
          {selection_rect s, dimension_text s, o0, o1, o2, o3} \<union> set (resize_handles s))"

text \<open>Two display lists agree outside a set of ids: the same items in the same order, with
  the same ids and tags, and every item whose id is not in the set is the same item.\<close>

definition untouched_outside :: "nat set \<Rightarrow> canvas_item list \<Rightarrow> canvas_item list \<Rightarrow> bool" where
  "untouched_outside B old new =
     list_all2 (\<lambda>a b. item_id b = item_id a \<and> item_tags b = item_tags a \<and> (item_id a \<notin> B \<longrightarrow> b = a))
       old new"

text \<open>After the commit, a press at (100, 100) grabs the bottom-right handle.\<close>

definition resizing_session :: "py_error + quickdraw" where
  "resizing_session = and_then committed_session (\<lambda>s. on_press s \<lparr>ev_x = 100, ev_y = 100\<rparr>)"

text \<open>The capture of the 200 by 200 screen with the pointer pressed at (10, 10), before
  the release that ends the selection.\<close>

definition selecting_session :: quickdraw where
  "selecting_session =
     on_button_press (setup_screenshot_canvas QuickDrawScreenshot_init 200 200 (Frombytes (200, 200) []))
       1 \<lparr>ev_x = 10, ev_y = 10\<rparr>"







section \<open>Properties\<close>

subsection \<open>Evaluation of the scenario session\<close>

lemmas canvas_defs =
  create_rectangle_def create_item_def create_image_def create_text_def create_line_def
  create_polygon_def Canvas_def itemconfig_def set_coords_def matches_def canvas_delete_def
  canvas_move_def get_coords_def find_withtag_def addtag_withtag_def tag_raise_def

lemma scenario_session_eval:
  "scenario_session =
   \<lparr>rect_canvas =
    \<lparr>display_list =
       [\<lparr>item_id = 1, item_type = image_item, item_coords = [0, 0],
           item_outline = [], item_fill = [], item_width = 0,
           item_label = Plain [], item_font = (''TkDefaultFont'', 0),
           item_state = ''normal'', item_tags = []\<rparr>,
        \<lparr>item_id = 2, item_type = rectangle_item,
           item_coords = [0, 0, 100, 100], item_outline = ''#007bff'',
           item_fill = [], item_width = 2, item_label = Plain [],
           item_font = (''TkDefaultFont'', 0), item_state = ''normal'',
           item_tags = []\<rparr>,
        \<lparr>item_id = 3, item_type = rectangle_item,
           item_coords = [0, 0, 200, 0], item_outline = ''black'',
           item_fill = ''black'', item_width = 1, item_label = Plain [],
           item_font = (''TkDefaultFont'', 0), item_state = ''normal'',
           item_tags = [''overlay'']\<rparr>,
        \<lparr>item_id = 4, item_type = rectangle_item,
           item_coords = [0, 0, 0, 100], item_outline = ''black'',
           item_fill = ''black'', item_width = 1, item_label = Plain [],
           item_font = (''TkDefaultFont'', 0), item_state = ''normal'',
           item_tags = [''overlay'']\<rparr>,
        \<lparr>item_id = 5, item_type = rectangle_item,
           item_coords = [100, 0, 200, 100], item_outline = ''black'',
           item_fill = ''black'', item_width = 1, item_label = Plain [],
           item_font = (''TkDefaultFont'', 0), item_state = ''normal'',
           item_tags = [''overlay'']\<rparr>,
        \<lparr>item_id = 6, item_type = rectangle_item,
           item_coords = [0, 100, 200, 200], item_outline = ''black'',
           item_fill = ''black'', item_width = 1, item_label = Plain [],
           item_font = (''TkDefaultFont'', 0), item_state = ''normal'',
           item_tags = [''overlay'']\<rparr>,
        \<lparr>item_id = 7, item_type = text_item, item_coords = [50, 50],
           item_outline = [], item_fill = ''white'', item_width = 0,
           item_label = Dimensions 100 100, item_font = (''Segoe UI'', 10),
           item_state = ''hidden'', item_tags = [''dimensions'']\<rparr>,
        \<lparr>item_id = 8, item_type = rectangle_item,
           item_coords = [- 5, - 5, 5, 5], item_outline = ''black'',
           item_fill = ''white'', item_width = 1, item_label = Plain [],
           item_font = (''TkDefaultFont'', 0), item_state = ''normal'',
           item_tags = [''handle0'']\<rparr>,
        \<lparr>item_id = 9, item_type = rectangle_item,
           item_coords = [95, - 5, 105, 5], item_outline = ''black'',
           item_fill = ''white'', item_width = 1, item_label = Plain [],
           item_font = (''TkDefaultFont'', 0), item_state = ''normal'',
           item_tags = [''handle1'']\<rparr>,
        \<lparr>item_id = 10, item_type = rectangle_item,
           item_coords = [95, 95, 105, 105], item_outline = ''black'',
           item_fill = ''white'', item_width = 1, item_label = Plain [],
           item_font = (''TkDefaultFont'', 0), item_state = ''normal'',
           item_tags = [''handle2'']\<rparr>,
        \<lparr>item_id = 11, item_type = rectangle_item,
           item_coords = [- 5, 95, 5, 105], item_outline = ''black'',
           item_fill = ''white'', item_width = 1, item_label = Plain [],
           item_font = (''TkDefaultFont'', 0), item_state = ''normal'',
           item_tags = [''handle3'']\<rparr>],
       next_id = 12\<rparr>,
    text_entry = None, text_box = 0, start_x = Some 0, start_y = Some 0,
    end_x = Some 100, end_y = Some 100,
    screenshot =
      Some (ImageCrop (Frombytes (200, 200) []) (0, 0, 100, 100)),
    full_screenshot = Some (Frombytes (200, 200) []), screen_width = 200,
    screen_height = 200, current_tool = ''move'', current_color = ''red'',
    line_width = 2, line_thickness = 2, max_line_thickness = 10,
    font_size = 12, accent_color = ''#007bff'', selection_rect = 2,
    overlay_rectangles = (3, 4, 5, 6), dimension_text = 7,
    is_drawing_mode = True, is_screenshot_in_progress = False,
    state = ''drawing'', undo_stack = [], redo_stack = [],
    resize_handles = [8, 9, 10, 11], resizing = None, resize_start_x = None,
    resize_start_y = None, dragging = False, drag_start_x = None,
    drag_start_y = None, last_update_time = 2, update_interval = 1 / 60,
    drawing_area = Some (0, 0, 100, 100)\<rparr>"
  by (simp add: scenario_session_def on_button_release_def on_button_press_def setup_screenshot_canvas_def
   QuickDrawScreenshot_init_def update_selection_def update_overlay_def setup_drawing_mode_def create_resize_handles_def
   Let_def canvas_defs)

lemma committed_session_eval:
  "committed_session =
     Inr (scenario_session\<lparr>current_tool := ''rectangle'', start_x := None, start_y := None,
        rect_canvas := \<lparr>display_list = display_list (rect_canvas scenario_session) @ [rect_item 12 [10, 10, 50, 50]],
                        next_id = 13\<rparr>,
        undo_stack := [rect_cmd 12]\<rparr>)"
  by (simp add: committed_session_def and_then_def scenario_session_eval on_press_def set_tool_def
      start_draw_def on_release_def end_draw_def point_in_drawing_area_def
      DrawCommand_init_def DrawCommand_execute_def rect_item_def rect_cmd_def Let_def canvas_defs)

lemma undo_committed:
  "undo (scenario_session\<lparr>current_tool := ''rectangle'', start_x := None, start_y := None,
        rect_canvas := \<lparr>display_list = display_list (rect_canvas scenario_session) @ [rect_item 12 [10, 10, 50, 50]],
                        next_id = 13\<rparr>,
        undo_stack := [rect_cmd 12]\<rparr>) =
   scenario_session\<lparr>current_tool := ''rectangle'', start_x := None, start_y := None,
        rect_canvas := \<lparr>display_list = display_list (rect_canvas scenario_session), next_id = 13\<rparr>,
        undo_stack := [], redo_stack := [rect_cmd 12]\<rparr>"
  by (simp add: scenario_session_eval undo_def DrawCommand_undo_def rect_item_def rect_cmd_def Let_def canvas_defs)

lemma redo_committed:
  "redo (scenario_session\<lparr>current_tool := ''rectangle'', start_x := None, start_y := None,
        rect_canvas := \<lparr>display_list = display_list (rect_canvas scenario_session), next_id = 13\<rparr>,
        undo_stack := [], redo_stack := [rect_cmd 12]\<rparr>) =
   scenario_session\<lparr>current_tool := ''rectangle'', start_x := None, start_y := None,
        rect_canvas := \<lparr>display_list = display_list (rect_canvas scenario_session) @ [rect_item 13 [10, 10, 50, 50]],
                        next_id = 14\<rparr>,
        undo_stack := [rect_cmd 13], redo_stack := []\<rparr>"
  by (simp add: scenario_session_eval redo_def DrawCommand_execute_def rect_item_def rect_cmd_def Let_def canvas_defs)

lemma dragged_session_eval:
  "dragged_session =
     Inr (scenario_session\<lparr>current_tool := ''move'', start_x := None, start_y := None,
        rect_canvas := \<lparr>display_list = moved_list @ [rect_item 12 [30, 10, 70, 50]], next_id = 13\<rparr>,
        undo_stack := [rect_cmd 12], drawing_area := Some (20, 0, 120, 100)\<rparr>)"
  by (simp add: dragged_session_def committed_session_eval and_then_def scenario_session_eval on_press_def set_tool_def
      on_release_def drag_selection_def update_resize_handles_def update_overlay_def moved_list_def
      rect_item_def rect_cmd_def Let_def canvas_defs)

lemma redrawing_session_eval:
  "\<exists>s. redrawing_session = Inr s \<and> start_x s = Some 20 \<and> start_y s = Some 20 \<and>
     drawing_area s = Some (0, 0, 100, 100) \<and> current_tool s = ''rectangle'' \<and>
     undo_stack s = [] \<and> redo_stack s = [rect_cmd 12]"
  unfolding redrawing_session_def committed_session_eval and_then_def sum.case undo_committed
  by (simp add: on_press_def start_draw_def scenario_session_eval canvas_defs)

lemma text_box_session_eval:
  "\<exists>s. text_box_session = Inr s \<and>
     text_entry s = Some \<lparr>tw_content = [], tw_x = 20, tw_y = 20, tw_width = 40, tw_height = 20\<rparr> \<and>
     undo_stack s = [] \<and> redo_stack s = [rect_cmd 12]"
  unfolding text_box_session_def committed_session_eval and_then_def sum.case undo_committed
  by (simp add: set_tool_def on_press_def start_text_entry_def resize_text_box_def
      finalize_text_box_def point_in_drawing_area_def Let_def scenario_session_eval canvas_defs)

lemma on_press_scenario:
  "on_press scenario_session \<lparr>ev_x = 30, ev_y = 30\<rparr> =
     Inr (scenario_session\<lparr>dragging := True, drag_start_x := Some 30, drag_start_y := Some 30\<rparr>)"
  by (simp add: scenario_session_eval on_press_def canvas_defs)

subsection \<open>Fields that the overlay and the handles leave alone\<close>

lemma update_overlay_fields [simp]:
  "drawing_area (update_overlay s a b c d) = drawing_area s"
  "screen_width (update_overlay s a b c d) = screen_width s"
  "screen_height (update_overlay s a b c d) = screen_height s"
  "undo_stack (update_overlay s a b c d) = undo_stack s"
  "redo_stack (update_overlay s a b c d) = redo_stack s"
  "dimension_text (update_overlay s a b c d) = dimension_text s"
  by (simp_all add: update_overlay_def Let_def split: prod.splits)

lemma update_resize_handles_fields [simp]:
  "drawing_area (update_resize_handles s a b c d) = drawing_area s"
  "screen_width (update_resize_handles s a b c d) = screen_width s"
  "screen_height (update_resize_handles s a b c d) = screen_height s"
  "undo_stack (update_resize_handles s a b c d) = undo_stack s"
  "redo_stack (update_resize_handles s a b c d) = redo_stack s"
  "dimension_text (update_resize_handles s a b c d) = dimension_text s"
  "overlay_rectangles (update_resize_handles s a b c d) = overlay_rectangles s"
  by (simp_all add: update_resize_handles_def Let_def)

subsection \<open>Dragging the drawing area\<close>

lemma drag_selection_area:
  assumes "dragging s" "drag_start_x s = Some sx" "drag_start_y s = Some sy"
    "drawing_area s = Some (x1, y1, x2, y2)"
  shows "\<exists>s' dx dy. drag_selection s x y = Inr s' \<and>
     screen_width s' = screen_width s \<and> screen_height s' = screen_height s \<and>
     dx = (if x1 + (x - sx) < 0 then - x1
           else if x2 + (x - sx) > screen_width s then screen_width s - x2 else x - sx) \<and>
     dy = (if y1 + (y - sy) < 0 then - y1
           else if y2 + (y - sy) > screen_height s then screen_height s - y2 else y - sy) \<and>
     drawing_area s' = Some (x1 + dx, y1 + dy, x2 + dx, y2 + dy)"
  using assms by (simp add: drag_selection_def Let_def)

text \<open>
  C7. A drag of a drawing area that lies within the screen returns normally, and the
  new drawing area again lies within the screen: its left and top edges are not
  negative, its right edge is at most \<open>screen_width\<close> and its bottom edge at most
  \<open>screen_height\<close>. The rectangle keeps its size, and each axis is clamped on its own:
  the horizontal shift is \<open>-x1\<close> when the pointer delta would push the left edge below 0,
  \<open>screen_width - x2\<close> when it would push the right edge past the screen, and the
  pointer delta otherwise; the vertical shift likewise.
\<close>

theorem drag_selection_stays_on_screen:
  assumes "dragging s" "drag_start_x s = Some sx" "drag_start_y s = Some sy"
    "drawing_area s = Some (x1, y1, x2, y2)"
    "0 \<le> x1" "x2 \<le> screen_width s" "0 \<le> y1" "y2 \<le> screen_height s"
  shows "\<exists>s' a b c d. drag_selection s x y = Inr s' \<and> drawing_area s' = Some (a, b, c, d) \<and>
     0 \<le> a \<and> 0 \<le> b \<and> c \<le> screen_width s' \<and> d \<le> screen_height s' \<and>
     c - a = x2 - x1 \<and> d - b = y2 - y1 \<and>
     a - x1 = (if x1 + (x - sx) < 0 then - x1
               else if x2 + (x - sx) > screen_width s then screen_width s - x2 else x - sx) \<and>
     b - y1 = (if y1 + (y - sy) < 0 then - y1
               else if y2 + (y - sy) > screen_height s then screen_height s - y2 else y - sy)"
proof -
  obtain s' dx dy where s': "drag_selection s x y = Inr s'"
    "screen_width s' = screen_width s" "screen_height s' = screen_height s"
    and dx: "dx = (if x1 + (x - sx) < 0 then - x1
           else if x2 + (x - sx) > screen_width s then screen_width s - x2 else x - sx)"
    and dy: "dy = (if y1 + (y - sy) < 0 then - y1
           else if y2 + (y - sy) > screen_height s then screen_height s - y2 else y - sy)"
    and area: "drawing_area s' = Some (x1 + dx, y1 + dy, x2 + dx, y2 + dy)"
    using drag_selection_area[OF assms(1-4)] by blast
  have "0 \<le> x1 + dx" "x2 + dx \<le> screen_width s"
    using assms(5,6) by (auto simp: dx)
  moreover have "0 \<le> y1 + dy" "y2 + dy \<le> screen_height s"
    using assms(7,8) by (auto simp: dy)
  ultimately show ?thesis
    using s' area dx dy by simp
qed

text \<open>The scenario of the specification: the drawing area (0, 0)-(100, 100) on the 200 by
  200 screen, grabbed at (30, 30) and dragged by (-50, 0), stays at (0, 0)-(100, 100).\<close>

theorem drag_selection_stays_on_screen_witness:
  "\<exists>s1 s2. on_press scenario_session \<lparr>ev_x = 30, ev_y = 30\<rparr> = Inr s1 \<and>
     dragging s1 \<and> drag_start_x s1 = Some 30 \<and> drag_start_y s1 = Some 30 \<and>
     drawing_area s1 = Some (0, 0, 100, 100) \<and> screen_width s1 = 200 \<and> screen_height s1 = 200 \<and>
     drag_selection s1 (- 20) 30 = Inr s2 \<and> drawing_area s2 = Some (0, 0, 100, 100)"
proof -
  define s1 where "s1 = scenario_session\<lparr>dragging := True, drag_start_x := Some 30, drag_start_y := Some 30\<rparr>"
  have h: "dragging s1" "drag_start_x s1 = Some 30" "drag_start_y s1 = Some 30"
    "drawing_area s1 = Some (0, 0, 100, 100)" "(0::real) \<le> 0" "100 \<le> screen_width s1"
    "(0::real) \<le> 0" "100 \<le> screen_height s1"
    by (simp_all add: s1_def scenario_session_eval)
  have w: "screen_width s1 = 200" "screen_height s1 = 200"
    by (simp_all add: s1_def scenario_session_eval)
  from drag_selection_stays_on_screen[OF h, of "- 20" 30]
  obtain s2 a b c d where "drag_selection s1 (- 20) 30 = Inr s2"
    "drawing_area s2 = Some (a, b, c, d)" "c - a = 100 - 0" "d - b = 100 - 0"
    "a - 0 = (if 0 + (- 20 - 30) < (0::real) then - 0
               else if 100 + (- 20 - 30) > screen_width s1 then screen_width s1 - 100 else - 20 - 30)"
    "b - 0 = (if 0 + (30 - 30) < (0::real) then - 0
               else if 100 + (30 - 30) > screen_height s1 then screen_height s1 - 100 else 30 - 30)"
    by blast
  then have "drag_selection s1 (- 20) 30 = Inr s2 \<and> drawing_area s2 = Some (0, 0, 100, 100)"
    by (simp add: w)
  then show ?thesis
    using on_press_scenario h w unfolding s1_def by blast
qed

subsection \<open>Undo and redo\<close>

text \<open>The scenario of the specification holds: after the commit the undo stack has one
  command; \<open>undo\<close> takes the rectangle off the canvas and moves the command to the redo
  stack; \<open>redo\<close> draws it again and moves the command back.\<close>

lemma undo_redo_scenario:
  "\<exists>s. committed_session = Inr s \<and>
     drawing_coords s = [[10, 10, 50, 50]] \<and>
     length (undo_stack s) = 1 \<and> length (redo_stack s) = 0 \<and>
     drawing_coords (undo s) = [] \<and>
     length (undo_stack (undo s)) = 0 \<and> length (redo_stack (undo s)) = 1 \<and>
     drawing_coords (redo (undo s)) = [[10, 10, 50, 50]] \<and>
     length (undo_stack (redo (undo s))) = 1 \<and> length (redo_stack (redo (undo s))) = 0"
  by (simp add: committed_session_eval drawing_coords_def undo_def redo_def DrawCommand_undo_def
      DrawCommand_execute_def rect_item_def rect_cmd_def Let_def canvas_defs
      scenario_session_eval)

text \<open>
  C1. The inverse law of undo and redo fails once the drawing area has been dragged.
  \<open>drag_selection\<close> moves the canvas items but leaves \<open>x1, y1, x2, y2\<close> of the
  commands as they were, and \<open>redo\<close> calls \<open>execute\<close>, which draws from those fields.
  In the dragged session the rectangle is shown at (30, 10)-(70, 50) before the undo and
  at (10, 10)-(50, 50) after undo and redo, while the drawing area stays at
  (20, 0)-(120, 100); the stacks behave as in the scenario.
\<close>

theorem undo_redo_after_drag:
  "\<exists>s. dragged_session = Inr s \<and>
     drawing_area s = Some (20, 0, 120, 100) \<and>
     drawing_coords s = [[30, 10, 70, 50]] \<and>
     length (undo_stack s) = 1 \<and> length (redo_stack s) = 0 \<and>
     drawing_coords (undo s) = [] \<and>
     length (undo_stack (undo s)) = 0 \<and> length (redo_stack (undo s)) = 1 \<and>
     drawing_coords (redo (undo s)) = [[10, 10, 50, 50]] \<and>
     length (undo_stack (redo (undo s))) = 1 \<and> length (redo_stack (redo (undo s))) = 0 \<and>
     drawing_area (redo (undo s)) = Some (20, 0, 120, 100)"
  by (simp add: dragged_session_eval drawing_coords_def undo_def redo_def DrawCommand_undo_def
      DrawCommand_execute_def moved_list_def rect_item_def rect_cmd_def Let_def canvas_defs
      scenario_session_eval)

subsection \<open>Committing clears the redo stack\<close>

lemma redo_empty: "redo_stack s = [] \<Longrightarrow> redo s = s"
  by (simp add: redo_def)

lemma end_draw_commits:
  assumes "start_x s = Some sx" "start_y s = Some sy" "drawing_area s = Some (x1, y1, x2, y2)"
    "point_in_drawing_area s (ev_x e) (ev_y e) = Inr True"
    "current_tool s = ''rectangle'' \<or> current_tool s = ''arrow''"
  shows "\<exists>s' c. end_draw s e = Inr s' \<and> undo_stack s' = undo_stack s @ [DrawCommand c] \<and>
           dc_tool c = current_tool s \<and>
           dc_x1 c = sx + x1 \<and> dc_y1 c = sy + y1 \<and> dc_x2 c = ev_x e \<and> dc_y2 c = ev_y e \<and>
           dc_color c = current_color s \<and> dc_thickness c = line_thickness s \<and>
           redo_stack s' = []"
  using assms
  by (auto simp: end_draw_def DrawCommand_init_def DrawCommand_execute_def Let_def
      create_rectangle_def create_line_def create_polygon_def create_item_def split: prod.splits)

lemma end_text_entry_commits:
  assumes "text_entry s = Some entry" "tw_content entry \<noteq> []"
  shows "\<exists>c. undo_stack (end_text_entry s) = undo_stack s @ [TextCommand c] \<and>
           tc_text c = tw_content entry \<and> tc_x c = tw_x entry \<and> tc_y c = tw_y entry \<and>
           tc_color c = current_color s \<and> tc_font c = (''TkDefaultFont'', font_size s) \<and>
           tc_width c = tw_width entry \<and> tc_height c = tw_height entry \<and>
           redo_stack (end_text_entry s) = []"
  using assms
  by (simp add: end_text_entry_def TextCommand_init_def TextCommand_execute_def Let_def
      create_text_def create_item_def split: prod.splits)

text \<open>
  C2. Every commit clears the redo stack. When \<open>end_draw\<close> commits (a shape was started,
  the release is inside the drawing area, the tool is rectangle or arrow) it returns
  normally with one more \<open>DrawCommand\<close> on the undo stack, and when \<open>end_text_entry\<close>
  commits (the entry holds text) one more \<open>TextCommand\<close> is on the undo stack; in both
  cases the redo stack is empty afterwards and \<open>redo\<close> leaves the whole session as it
  is. The session \<open>s\<close> is arbitrary, so this holds after any undo.
\<close>

theorem commit_clears_redo_stack:
  "(start_x s = Some sx \<and> start_y s = Some sy \<and> drawing_area s = Some (x1, y1, x2, y2) \<and>
    point_in_drawing_area s (ev_x e) (ev_y e) = Inr True \<and>
    (current_tool s = ''rectangle'' \<or> current_tool s = ''arrow'')
    \<longrightarrow> (\<exists>s' c. end_draw s e = Inr s' \<and> undo_stack s' = undo_stack s @ [DrawCommand c] \<and>
           redo_stack s' = [] \<and> redo s' = s'))
   \<and>
   (text_entry s = Some entry \<and> tw_content entry \<noteq> []
    \<longrightarrow> (\<exists>c. undo_stack (end_text_entry s) = undo_stack s @ [TextCommand c] \<and>
           redo_stack (end_text_entry s) = [] \<and>
           redo (end_text_entry s) = end_text_entry s))"
proof (intro conjI impI)
  assume a: "start_x s = Some sx \<and> start_y s = Some sy \<and> drawing_area s = Some (x1, y1, x2, y2) \<and>
    point_in_drawing_area s (ev_x e) (ev_y e) = Inr True \<and>
    (current_tool s = ''rectangle'' \<or> current_tool s = ''arrow'')"
  then obtain s' c where "end_draw s e = Inr s'" "undo_stack s' = undo_stack s @ [DrawCommand c]"
      "redo_stack s' = []"
    using end_draw_commits[of s sx sy x1 y1 x2 y2 e] by blast
  then show "\<exists>s' c. end_draw s e = Inr s' \<and> undo_stack s' = undo_stack s @ [DrawCommand c] \<and>
           redo_stack s' = [] \<and> redo s' = s'"
    using redo_empty by blast
next
  assume "text_entry s = Some entry \<and> tw_content entry \<noteq> []"
  then obtain c where "undo_stack (end_text_entry s) = undo_stack s @ [TextCommand c]"
      "redo_stack (end_text_entry s) = []"
    using end_text_entry_commits[of s entry] by blast
  then show "\<exists>c. undo_stack (end_text_entry s) = undo_stack s @ [TextCommand c] \<and>
           redo_stack (end_text_entry s) = [] \<and>
           redo (end_text_entry s) = end_text_entry s"
    using redo_empty by blast
qed

text \<open>After the committed rectangle is undone the redo stack holds it; a new rectangle
  drawn to (40, 40), or the text "hi" entered in a text box, empties the redo stack.\<close>

theorem commit_clears_redo_stack_witness:
  "\<exists>s t. redrawing_session = Inr s \<and> redo_stack s = [rect_cmd 12] \<and>
     (\<exists>s' c. end_draw s \<lparr>ev_x = 40, ev_y = 40\<rparr> = Inr s' \<and>
        undo_stack s' = [DrawCommand c] \<and> redo_stack s' = [] \<and> redo s' = s') \<and>
     text_box_session = Inr t \<and> redo_stack t = [rect_cmd 12] \<and>
     (\<exists>c. undo_stack (end_text_entry (type_into_entry t ''hi'')) = [TextCommand c] \<and>
        redo_stack (end_text_entry (type_into_entry t ''hi'')) = [] \<and>
        redo (end_text_entry (type_into_entry t ''hi'')) = end_text_entry (type_into_entry t ''hi''))"
proof -
  obtain s where s: "redrawing_session = Inr s" "start_x s = Some 20" "start_y s = Some 20"
     "drawing_area s = Some (0, 0, 100, 100)" "current_tool s = ''rectangle''"
     "undo_stack s = []" "redo_stack s = [rect_cmd 12]"
    using redrawing_session_eval by blast
  obtain t where t: "text_box_session = Inr t"
     "text_entry t = Some \<lparr>tw_content = [], tw_x = 20, tw_y = 20, tw_width = 40, tw_height = 20\<rparr>"
     "undo_stack t = []" "redo_stack t = [rect_cmd 12]"
    using text_box_session_eval by blast
  let ?t = "type_into_entry t ''hi''"
  have t': "text_entry ?t = Some \<lparr>tw_content = ''hi'', tw_x = 20, tw_y = 20, tw_width = 40, tw_height = 20\<rparr>"
    "undo_stack ?t = []"
    using t by (simp_all add: type_into_entry_def)
  have p: "point_in_drawing_area s (ev_x \<lparr>ev_x = 40, ev_y = 40\<rparr>) (ev_y \<lparr>ev_x = 40, ev_y = 40\<rparr>) = Inr True"
    using s by (simp add: point_in_drawing_area_def)
  have "\<exists>s' c. end_draw s \<lparr>ev_x = 40, ev_y = 40\<rparr> = Inr s' \<and>
        undo_stack s' = undo_stack s @ [DrawCommand c] \<and> redo_stack s' = [] \<and> redo s' = s'"
    using commit_clears_redo_stack[of s 20 20 0 0 100 100 "\<lparr>ev_x = 40, ev_y = 40\<rparr>"] s p by simp
  moreover have "\<exists>c. undo_stack (end_text_entry ?t) = undo_stack ?t @ [TextCommand c] \<and>
        redo_stack (end_text_entry ?t) = [] \<and> redo (end_text_entry ?t) = end_text_entry ?t"
    using commit_clears_redo_stack[of ?t _ _ _ _ _ _ _ "\<lparr>tw_content = ''hi'', tw_x = 20, tw_y = 20, tw_width = 40, tw_height = 20\<rparr>"] t'
    by simp
  ultimately show ?thesis
    using s t t' by auto
qed

subsection \<open>Empty text is discarded\<close>

text \<open>
  C9. When the open text entry is closed with empty text, both stacks are unchanged, the
  only change to the canvas is that the dashed text box is deleted, and the entry is gone.
  When it holds text, a \<open>TextCommand\<close> with that text is appended to the undo stack. So
  the undo stack is unchanged exactly when the text is empty.
\<close>

theorem end_text_entry_empty_text:
  assumes "text_entry s = Some entry"
  shows "(tw_content entry = [] \<longrightarrow>
            undo_stack (end_text_entry s) = undo_stack s \<and>
            redo_stack (end_text_entry s) = redo_stack s \<and>
            rect_canvas (end_text_entry s) = canvas_delete (rect_canvas s) (Tag ''text_box'') \<and>
            text_entry (end_text_entry s) = None) \<and>
         (tw_content entry \<noteq> [] \<longrightarrow>
            (\<exists>c. undo_stack (end_text_entry s) = undo_stack s @ [TextCommand c] \<and>
                 tc_text c = tw_content entry)) \<and>
         ((undo_stack (end_text_entry s) = undo_stack s) = (tw_content entry = []))"
proof -
  have e: "tw_content entry = [] \<Longrightarrow> end_text_entry s =
       s\<lparr>text_entry := None, rect_canvas := canvas_delete (rect_canvas s) (Tag ''text_box'')\<rparr>"
    using assms by (simp add: end_text_entry_def)
  have n: "tw_content entry \<noteq> [] \<Longrightarrow>
       \<exists>c. undo_stack (end_text_entry s) = undo_stack s @ [TextCommand c] \<and> tc_text c = tw_content entry"
    using end_text_entry_commits[OF assms] by blast
  show ?thesis
  proof (cases "tw_content entry = []")
    case True
    then show ?thesis using e by simp
  next
    case False
    then show ?thesis using n by auto
  qed
qed

text \<open>A text box is opened and closed without typing: nothing is committed. With "hi"
  typed, the undo stack changes.\<close>

theorem end_text_entry_empty_text_witness:
  "\<exists>t. text_box_session = Inr t \<and>
     text_entry t = Some \<lparr>tw_content = [], tw_x = 20, tw_y = 20, tw_width = 40, tw_height = 20\<rparr> \<and>
     undo_stack (end_text_entry t) = undo_stack t \<and>
     redo_stack (end_text_entry t) = redo_stack t \<and>
     text_entry (end_text_entry t) = None \<and>
     undo_stack (end_text_entry (type_into_entry t ''hi'')) \<noteq> undo_stack (type_into_entry t ''hi'')"
proof -
  obtain t where t: "text_box_session = Inr t"
     "text_entry t = Some \<lparr>tw_content = [], tw_x = 20, tw_y = 20, tw_width = 40, tw_height = 20\<rparr>"
    using text_box_session_eval by blast
  let ?t = "type_into_entry t ''hi''"
  have t': "text_entry ?t = Some \<lparr>tw_content = ''hi'', tw_x = 20, tw_y = 20, tw_width = 40, tw_height = 20\<rparr>"
    using t by (simp add: type_into_entry_def)
  have "undo_stack (end_text_entry t) = undo_stack t \<and>
     redo_stack (end_text_entry t) = redo_stack t \<and> text_entry (end_text_entry t) = None"
    using end_text_entry_empty_text[OF t(2)] by simp
  moreover have "undo_stack (end_text_entry ?t) \<noteq> undo_stack ?t"
    using end_text_entry_empty_text[OF t'] by simp
  ultimately show ?thesis using t by blast
qed

subsection \<open>Export after a drag\<close>

text \<open>Without a drag the export draws the committed rectangle where the canvas shows it:
  the stroke border shifts it by one pixel.\<close>

lemma export_before_drag:
  "\<exists>s. committed_session = Inr s \<and>
     drawing_area s = Some (0, 0, 100, 100) \<and>
     drawing_coords s = [[10, 10, 50, 50]] \<and>
     copy_to_clipboard fonts s =
       Inr (Some (DrawRectangle
                   (DrawRectangle
                      (ImagePaste (ImageNew (102, 102))
                         (ImageCrop (Frombytes (200, 200) []) (0, 0, 100, 100)) (1, 1))
                      (0, 0, 101, 101) ''red'' 1)
                   (11, 11, 51, 51) ''red'' 2))"
  by (simp add: committed_session_eval drawing_coords_def copy_to_clipboard_def
      rect_item_def rect_cmd_def Let_def canvas_defs scenario_session_eval)

text \<open>
  C3. After a drag the export no longer matches the screen. In the dragged session the
  drawing area is (20, 0)-(120, 100) and the canvas shows the rectangle at
  (30, 10)-(70, 50), that is at (10, 10)-(50, 50) within the drawing area. The export
  subtracts the new origin from the old stored coordinates and draws the rectangle at
  (-9, 11)-(31, 51) instead of (11, 11)-(51, 51): \<open>drag_selection\<close> moved the canvas
  items by the delta but not the stored geometry.
\<close>

theorem export_after_drag:
  "\<exists>s. dragged_session = Inr s \<and>
     drawing_area s = Some (20, 0, 120, 100) \<and>
     drawing_coords s = [[30, 10, 70, 50]] \<and>
     copy_to_clipboard fonts s =
       Inr (Some (DrawRectangle
                   (DrawRectangle
                      (ImagePaste (ImageNew (102, 102))
                         (ImageCrop (Frombytes (200, 200) []) (20, 0, 120, 100)) (1, 1))
                      (0, 0, 101, 101) ''red'' 1)
                   (- 9, 11, 31, 51) ''red'' 2))"
  by (simp add: dragged_session_eval drawing_coords_def copy_to_clipboard_def
      moved_list_def rect_item_def rect_cmd_def Let_def canvas_defs scenario_session_eval)

subsection \<open>Resizing the drawing area\<close>

lemma untouched_refl: "untouched_outside B xs xs"
  by (simp add: untouched_outside_def list_all2_same)

lemma untouched_trans:
  "untouched_outside B xs ys \<Longrightarrow> untouched_outside B ys zs \<Longrightarrow> untouched_outside B xs zs"
  unfolding untouched_outside_def
  by (erule list_all2_trans[rotated], assumption) auto

lemma untouched_update_first:
  assumes "\<And>x. p x \<Longrightarrow> item_id x \<in> B"
    "\<And>x. item_id (f x) = item_id x \<and> item_tags (f x) = item_tags x"
  shows "untouched_outside B xs (update_first p f xs)"
  using assms by (induction xs) (auto simp: untouched_outside_def list_all2_same)

lemma untouched_map:
  assumes "\<And>x. p x \<Longrightarrow> item_id x \<in> B"
    "\<And>x. item_id (f x) = item_id x \<and> item_tags (f x) = item_tags x"
  shows "untouched_outside B xs (map (\<lambda>x. if p x then f x else x) xs)"
  using assms by (induction xs) (auto simp: untouched_outside_def)

lemma untouched_set_coords:
  assumes "i \<in> B" "untouched_outside B xs (display_list cv)"
  shows "untouched_outside B xs (display_list (set_coords cv (Id i) cs))"
proof -
  have "untouched_outside B (display_list cv)
          (update_first (matches (Id i)) (\<lambda>it. it\<lparr>item_coords := cs\<rparr>) (display_list cv))"
    by (rule untouched_update_first) (simp_all add: matches_def assms(1))
  then show ?thesis
    using assms(2) untouched_trans by (simp add: set_coords_def)
qed

lemma untouched_itemconfig:
  assumes "i \<in> B" "\<And>x. item_id (f x) = item_id x \<and> item_tags (f x) = item_tags x"
    "untouched_outside B xs (display_list cv)"
  shows "untouched_outside B xs (display_list (itemconfig cv (Id i) f))"
proof -
  have "untouched_outside B (display_list cv)
          (map (\<lambda>it. if matches (Id i) it then f it else it) (display_list cv))"
    by (rule untouched_map) (simp_all add: matches_def assms(1,2))
  then show ?thesis
    using assms(3) untouched_trans by (simp add: itemconfig_def)
qed

lemma untouched_fold_handles:
  "fst ` set hs \<subseteq> B \<Longrightarrow> untouched_outside B xs (display_list cv) \<Longrightarrow>
   untouched_outside B xs
     (display_list (fold (\<lambda>(handle, (x, y)) cv.
                     set_coords cv (Id handle) [x - 10 / 2, y - 10 / 2, x + 10 / 2, y + 10 / 2]) hs cv))"
proof (induction hs arbitrary: cv)
  case Nil
  then show ?case by simp
next
  case (Cons h hs)
  obtain i x y where h: "h = (i, (x, y))" by (cases h) auto
  have i: "i \<in> B" and hs: "fst ` set hs \<subseteq> B" using Cons.prems(1) by (auto simp: h)
  have "untouched_outside B xs
          (display_list (set_coords cv (Id i) [x - 10 / 2, y - 10 / 2, x + 10 / 2, y + 10 / 2]))"
    by (rule untouched_set_coords[OF i Cons.prems(2)])
  from Cons.IH[OF hs this] show ?case by (simp add: h)
qed

lemma untouched_update_resize_handles:
  assumes "set (resize_handles s) \<subseteq> B" "untouched_outside B xs (display_list (rect_canvas s))"
  shows "untouched_outside B xs (display_list (rect_canvas (update_resize_handles s a b c d)))"
proof -
  have "fst ` set (zip (resize_handles s) [(a, b), (c, b), (c, d), (a, d)]) \<subseteq> B"
    using assms(1) by (auto dest: set_zip_leftD)
  from untouched_fold_handles[OF this assms(2)] show ?thesis
    by (simp add: update_resize_handles_def)
qed

lemma untouched_update_overlay:
  assumes "overlay_rectangles s = (o0, o1, o2, o3)" "{o0, o1, o2, o3} \<subseteq> B" "dimension_text s \<in> B"
    "untouched_outside B xs (display_list (rect_canvas s))"
  shows "untouched_outside B xs (display_list (rect_canvas (update_overlay s a b c d)))"
proof -
  have *: "rect_canvas (update_overlay s a b c d) =
     itemconfig
       (set_coords
         (itemconfig (itemconfig (itemconfig (itemconfig
           (set_coords (set_coords (set_coords (set_coords (rect_canvas s)
              (Id o0) [0, 0, screen_width s, b])
              (Id o1) [0, b, a, d])
              (Id o2) [c, b, screen_width s, d])
              (Id o3) [0, d, screen_width s, screen_height s])
           (Id o0) (\<lambda>it. it\<lparr>item_fill := ''black''\<rparr>))
           (Id o1) (\<lambda>it. it\<lparr>item_fill := ''black''\<rparr>))
           (Id o2) (\<lambda>it. it\<lparr>item_fill := ''black''\<rparr>))
           (Id o3) (\<lambda>it. it\<lparr>item_fill := ''black''\<rparr>))
         (Id (dimension_text s)) [(a + c) / 2, (b + d) / 2])
       (Id (dimension_text s))
       (\<lambda>it. it\<lparr>item_label := Dimensions (c - a) (d - b), item_state := ''normal''\<rparr>)"
    by (simp add: update_overlay_def Let_def assms(1))
  show ?thesis
    unfolding * using assms(2,3)
    by (intro untouched_itemconfig untouched_set_coords assms(4)) simp_all
qed

lemma untouched_filter:
  assumes u: "untouched_outside B old new"
    and q: "\<And>it. it \<in> set old \<Longrightarrow> q it \<Longrightarrow> item_id it \<notin> B"
    and c: "\<And>a b. item_id b = item_id a \<Longrightarrow> item_tags b = item_tags a \<Longrightarrow> q b = q a"
  shows "filter q new = filter q old"
proof -
  have "list_all2 (\<lambda>a b. item_id b = item_id a \<and> item_tags b = item_tags a \<and> (item_id a \<notin> B \<longrightarrow> b = a))
          old new"
    using u by (simp add: untouched_outside_def)
  then show ?thesis
    using q
  proof (induction old new rule: list_all2_induct)
    case Nil
    then show ?case by simp
  next
    case (Cons a old b new)
    have qb: "q b = q a" using Cons.hyps(1) c by blast
    have eq: "q a \<Longrightarrow> b = a" using Cons.hyps(1) Cons.prems[of a] by simp
    have "filter q new = filter q old"
      by (rule Cons.IH) (simp add: Cons.prems)
    then show ?case using qb eq by (cases "q a") simp_all
  qed
qed

lemma untouched_ids:
  assumes "untouched_outside B old new"
  shows "map item_id new = map item_id old"
proof -
  have "list_all2 (\<lambda>a b. item_id b = item_id a \<and> item_tags b = item_tags a \<and> (item_id a \<notin> B \<longrightarrow> b = a))
          old new"
    using assms by (simp add: untouched_outside_def)
  then show ?thesis
    by (induction old new rule: list_all2_induct) simp_all
qed

lemma resize_selection_result:
  assumes "get_coords (rect_canvas s) (Id (selection_rect s)) = [cx1, cy1, cx2, cy2]"
  shows "\<exists>s'. resize_selection s x y = Inr s' \<and>
           s' = s\<lparr>rect_canvas := rect_canvas s', drawing_area := drawing_area s'\<rparr> \<and>
           untouched_outside (bookkeeping_items s) (display_list (rect_canvas s)) (display_list (rect_canvas s')) \<and>
           drawing_area s' =
             Some (let (x1, y1, x2, y2) =
                     (if resizing s = Some 0 then (x, y, cx2, cy2)
                      else if resizing s = Some 1 then (cx1, y, x, cy2)
                      else if resizing s = Some 2 then (cx1, cy1, x, y)
                      else if resizing s = Some 3 then (x, cy1, cx2, y)
                      else (cx1, cy1, cx2, cy2))
                   in (min x1 x2, min y1 y2, max x1 x2, max y1 y2))"
proof -
  obtain o0 o1 o2 o3 where ov: "overlay_rectangles s = (o0, o1, o2, o3)"
    by (cases "overlay_rectangles s") auto
  have B: "selection_rect s \<in> bookkeeping_items s" "dimension_text s \<in> bookkeeping_items s"
    "{o0, o1, o2, o3} \<subseteq> bookkeeping_items s" "set (resize_handles s) \<subseteq> bookkeeping_items s"
    by (auto simp: bookkeeping_items_def ov)
  define mid where "mid cs a b c d =
      update_overlay (update_resize_handles
         (s\<lparr>rect_canvas := set_coords (rect_canvas s) (Id (selection_rect s)) cs\<rparr>) a b c d) a b c d"
    for cs a b c d
  have step: "untouched_outside (bookkeeping_items s) (display_list (rect_canvas s))
      (display_list (rect_canvas (mid cs a b c d)))" for cs a b c d
    unfolding mid_def
    by (intro untouched_update_overlay[where ?o0.0=o0 and ?o1.0=o1 and ?o2.0=o2 and ?o3.0=o3]
          untouched_update_resize_handles)
       (use B in \<open>simp_all add: ov untouched_set_coords untouched_refl\<close>)
  have fields: "mid cs a b c d = s\<lparr>rect_canvas := rect_canvas (mid cs a b c d)\<rparr>"
    "dimension_text (mid cs a b c d) = dimension_text s" for cs a b c d
    by (simp_all add: mid_def update_overlay_def update_resize_handles_def Let_def split: prod.splits)
  define fin where "fin a b c d =
     set_coords (itemconfig (rect_canvas (mid [a, b, c, d] a b c d)) (Id (dimension_text s))
        (\<lambda>it. it\<lparr>item_label := Dimensions \<bar>c - a\<bar> \<bar>d - b\<bar>, item_state := ''normal''\<rparr>))
        (Id (dimension_text s)) [(a + c) / 2, (b + d) / 2]" for a b c d
  have fin: "untouched_outside (bookkeeping_items s) (display_list (rect_canvas s))
      (display_list (fin a b c d))" for a b c d
    unfolding fin_def
    by (intro untouched_set_coords untouched_itemconfig step) (simp_all add: B)
  define p where "p =
                 (if resizing s = Some 0 then (x, y, cx2, cy2)
                  else if resizing s = Some 1 then (cx1, y, x, cy2)
                  else if resizing s = Some 2 then (cx1, cy1, x, y)
                  else if resizing s = Some 3 then (x, cy1, cx2, y)
                  else (cx1, cy1, cx2, cy2))"
  define a where "a = min (fst p) (fst (snd (snd p)))"
  define c where "c = max (fst p) (fst (snd (snd p)))"
  define b where "b = min (fst (snd p)) (snd (snd (snd p)))"
  define d where "d = max (fst (snd p)) (snd (snd (snd p)))"
  have "resize_selection s x y =
       Inr ((mid [a, b, c, d] a b c d)\<lparr>drawing_area := Some (a, b, c, d), rect_canvas := fin a b c d\<rparr>)"
    unfolding resize_selection_def assms list.case Let_def case_prod_beta p_def[symmetric]
    by (simp add: fin_def mid_def fields(2)[unfolded mid_def] a_def b_def c_def d_def)
  also have "(mid [a, b, c, d] a b c d)\<lparr>drawing_area := Some (a, b, c, d), rect_canvas := fin a b c d\<rparr>
       = s\<lparr>rect_canvas := fin a b c d, drawing_area := Some (a, b, c, d)\<rparr>"
    by (subst fields(1)) simp
  finally have res: "resize_selection s x y = Inr (s\<lparr>rect_canvas := fin a b c d, drawing_area := Some (a, b, c, d)\<rparr>)" .
  have "(a, b, c, d) = (let (x1, y1, x2, y2) = p in (min x1 x2, min y1 y2, max x1 x2, max y1 y2))"
    by (simp add: a_def b_def c_def d_def case_prod_beta)
  then show ?thesis
    using res fin[of a b c d] unfolding p_def by simp
qed

text \<open>
  C10. A resize through a corner handle returns normally whenever the selection rectangle
  is on the canvas, and it changes only the canvas and the drawing-area rectangle of the
  session: both stacks, and so every stored coordinate of every command, are unchanged.
  On the canvas no item is created, deleted or reordered, and every item other than the
  selection rectangle, the dimension readout, the overlay panels and the handles is left
  exactly as it was. When none of those bookkeeping items carries the tag \<open>drawing\<close>,
  the items tagged \<open>drawing\<close> (the rendered shapes) are the same after the resize as
  before it.
\<close>

theorem resize_selection_leaves_shapes:
  assumes "get_coords (rect_canvas s) (Id (selection_rect s)) = [cx1, cy1, cx2, cy2]"
  shows "\<exists>s'. resize_selection s x y = Inr s' \<and>
     s' = s\<lparr>rect_canvas := rect_canvas s', drawing_area := drawing_area s'\<rparr> \<and>
     undo_stack s' = undo_stack s \<and> redo_stack s' = redo_stack s \<and>
     map item_id (display_list (rect_canvas s')) = map item_id (display_list (rect_canvas s)) \<and>
     filter (\<lambda>it. item_id it \<notin> bookkeeping_items s) (display_list (rect_canvas s')) =
       filter (\<lambda>it. item_id it \<notin> bookkeeping_items s) (display_list (rect_canvas s)) \<and>
     ((\<forall>it \<in> set (display_list (rect_canvas s)).
          item_id it \<in> bookkeeping_items s \<longrightarrow> ''drawing'' \<notin> set (item_tags it)) \<longrightarrow>
        filter (matches (Tag ''drawing'')) (display_list (rect_canvas s')) =
          filter (matches (Tag ''drawing'')) (display_list (rect_canvas s)))"
proof -
  obtain s' where r: "resize_selection s x y = Inr s'"
    and f: "s' = s\<lparr>rect_canvas := rect_canvas s', drawing_area := drawing_area s'\<rparr>"
    and u: "untouched_outside (bookkeeping_items s) (display_list (rect_canvas s)) (display_list (rect_canvas s'))"
    using resize_selection_result[OF assms, of x y] by blast
  have st: "undo_stack s' = undo_stack s" "redo_stack s' = redo_stack s"
    by (subst f, simp)+
  have ids: "map item_id (display_list (rect_canvas s')) = map item_id (display_list (rect_canvas s))"
    by (rule untouched_ids[OF u])
  have out: "filter (\<lambda>it. item_id it \<notin> bookkeeping_items s) (display_list (rect_canvas s')) =
       filter (\<lambda>it. item_id it \<notin> bookkeeping_items s) (display_list (rect_canvas s))"
    by (rule untouched_filter[OF u]) simp_all
  have tagged: "filter (matches (Tag ''drawing'')) (display_list (rect_canvas s')) =
          filter (matches (Tag ''drawing'')) (display_list (rect_canvas s))"
    if "\<forall>it \<in> set (display_list (rect_canvas s)).
          item_id it \<in> bookkeeping_items s \<longrightarrow> ''drawing'' \<notin> set (item_tags it)"
    by (rule untouched_filter[OF u]) (use that in \<open>auto simp: matches_def\<close>)
  show ?thesis
    using r f st ids out tagged by blast
qed

lemma resizing_session_eval:
  "resizing_session =
     Inr (scenario_session\<lparr>current_tool := ''rectangle'', start_x := None, start_y := None,
        rect_canvas :=
          itemconfig \<lparr>display_list = display_list (rect_canvas scenario_session) @ [rect_item 12 [10, 10, 50, 50]],
                      next_id = 13\<rparr> (Id 7) (\<lambda>it. it\<lparr>item_state := ''normal''\<rparr>),
        undo_stack := [rect_cmd 12],
        resizing := Some 2, resize_start_x := Some 100, resize_start_y := Some 100\<rparr>)"
  unfolding resizing_session_def committed_session_eval and_then_def sum.case
  by (simp add: on_press_def scenario_session_eval rect_item_def canvas_defs)

text \<open>The bottom-right handle of the session with the committed rectangle is dragged to
  (150, 150): the drawing area grows to (0, 0)-(150, 150), the rectangle item and the
  command stay at (10, 10)-(50, 50).\<close>

theorem resize_selection_leaves_shapes_witness:
  "\<exists>r s'. resizing_session = Inr r \<and>
     get_coords (rect_canvas r) (Id (selection_rect r)) = [0, 0, 100, 100] \<and>
     bookkeeping_items r = {2, 3, 4, 5, 6, 7, 8, 9, 10, 11} \<and>
     map (\<lambda>it. (item_id it, item_tags it)) (display_list (rect_canvas r)) =
       [(1, []), (2, []), (3, [''overlay'']), (4, [''overlay'']), (5, [''overlay'']),
        (6, [''overlay'']), (7, [''dimensions'']), (8, [''handle0'']), (9, [''handle1'']),
        (10, [''handle2'']), (11, [''handle3'']), (12, [''drawing''])] \<and>
     resize_selection r 150 150 = Inr s' \<and>
     drawing_area r = Some (0, 0, 100, 100) \<and> drawing_area s' = Some (0, 0, 150, 150) \<and>
     undo_stack s' = [rect_cmd 12] \<and> redo_stack s' = [] \<and>
     filter (matches (Tag ''drawing'')) (display_list (rect_canvas s')) = [rect_item 12 [10, 10, 50, 50]]"
proof -
  define r where "r = scenario_session\<lparr>current_tool := ''rectangle'', start_x := None, start_y := None,
        rect_canvas :=
          itemconfig \<lparr>display_list = display_list (rect_canvas scenario_session) @ [rect_item 12 [10, 10, 50, 50]],
                      next_id = 13\<rparr> (Id 7) (\<lambda>it. it\<lparr>item_state := ''normal''\<rparr>),
        undo_stack := [rect_cmd 12],
        resizing := Some 2, resize_start_x := Some 100, resize_start_y := Some 100\<rparr>"
  have r: "resizing_session = Inr r"
    by (simp add: resizing_session_eval r_def)
  have c: "get_coords (rect_canvas r) (Id (selection_rect r)) = [0, 0, 100, 100]"
    by (simp add: r_def scenario_session_eval rect_item_def canvas_defs)
  have b: "bookkeeping_items r = {2, 3, 4, 5, 6, 7, 8, 9, 10, 11}"
    by (auto simp: r_def scenario_session_eval bookkeeping_items_def)
  have l: "map (\<lambda>it. (item_id it, item_tags it)) (display_list (rect_canvas r)) =
       [(1, []), (2, []), (3, [''overlay'']), (4, [''overlay'']), (5, [''overlay'']),
        (6, [''overlay'']), (7, [''dimensions'']), (8, [''handle0'']), (9, [''handle1'']),
        (10, [''handle2'']), (11, [''handle3'']), (12, [''drawing''])]"
    by (simp add: r_def scenario_session_eval rect_item_def canvas_defs)
  have d: "filter (matches (Tag ''drawing'')) (display_list (rect_canvas r)) = [rect_item 12 [10, 10, 50, 50]]"
    by (simp add: r_def scenario_session_eval rect_item_def canvas_defs)
  have st: "undo_stack r = [rect_cmd 12]" "redo_stack r = []" "drawing_area r = Some (0, 0, 100, 100)"
    by (simp_all add: r_def scenario_session_eval)
  have h: "\<forall>it \<in> set (display_list (rect_canvas r)).
          item_id it \<in> bookkeeping_items r \<longrightarrow> ''drawing'' \<notin> set (item_tags it)"
  proof
    fix it assume "it \<in> set (display_list (rect_canvas r))"
    then have "(item_id it, item_tags it) \<in> set (map (\<lambda>it. (item_id it, item_tags it)) (display_list (rect_canvas r)))"
      by force
    then show "item_id it \<in> bookkeeping_items r \<longrightarrow> ''drawing'' \<notin> set (item_tags it)"
      unfolding l b by auto
  qed
  from resize_selection_leaves_shapes[OF c, of 150 150] h
  obtain s' where s': "resize_selection r 150 150 = Inr s'"
     "undo_stack s' = undo_stack r" "redo_stack s' = redo_stack r"
     "filter (matches (Tag ''drawing'')) (display_list (rect_canvas s')) =
          filter (matches (Tag ''drawing'')) (display_list (rect_canvas r))"
    by blast
  have "resizing r = Some 2"
    by (simp add: r_def)
  then have a: "drawing_area s' = Some (0, 0, 150, 150)"
    using s'(1) resize_selection_result[OF c, of 150 150] by auto
  show ?thesis
    using r c b l s' a d st by auto
qed

subsection \<open>Releasing the selection\<close>

lemma update_selection_fields [simp]:
  "full_screenshot (update_selection s now) = full_screenshot s"
  "drawing_area (update_selection s now) = drawing_area s"
  "is_drawing_mode (update_selection s now) = is_drawing_mode s"
  "screenshot (update_selection s now) = screenshot s"
  by (simp_all add: update_selection_def update_overlay_def Let_def split: option.splits prod.splits)

lemma create_resize_handles_fields [simp]:
  "drawing_area (create_resize_handles s a b c d) = drawing_area s"
  "is_drawing_mode (create_resize_handles s a b c d) = is_drawing_mode s"
  "screenshot (create_resize_handles s a b c d) = screenshot s"
  by (simp_all add: create_resize_handles_def Let_def split: prod.splits)

lemma on_button_release_area:
  assumes "start_x s = Some sx" "start_y s = Some sy" "full_screenshot s = Some full"
  shows "drawing_area (on_button_release s now e) =
           Some (if ev_x e = sx \<and> ev_y e = sy then (sx, sy, sx + 1, sy + 1)
                 else (min sx (ev_x e), min sy (ev_y e), max sx (ev_x e), max sy (ev_y e)))"
    "screenshot (on_button_release s now e) =
           Some (ImageCrop full
              (if ev_x e = sx \<and> ev_y e = sy then (sx, sy, sx + 1, sy + 1)
               else (min sx (ev_x e), min sy (ev_y e), max sx (ev_x e), max sy (ev_y e))))"
    "is_drawing_mode (on_button_release s now e)"
  using assms
  by (simp_all add: on_button_release_def setup_drawing_mode_def Let_def)

text \<open>A release at the very point of the press (a click without movement) is moved by
  (1, 1): the drawing area is the 1 by 1 square at the press point and the crop is 1 by 1
  pixel.\<close>

lemma click_release_is_one_pixel:
  assumes "start_x s = Some sx" "start_y s = Some sy" "full_screenshot s = Some full"
    and "ev_x e = sx" "ev_y e = sy"
  shows "is_drawing_mode (on_button_release s now e)"
    "drawing_area (on_button_release s now e) = Some (sx, sy, sx + 1, sy + 1)"
    "screenshot (on_button_release s now e) = Some (ImageCrop full (sx, sy, sx + 1, sy + 1))"
    "image_size (ImageCrop full (sx, sy, sx + 1, sy + 1)) = (1, 1)"
  using on_button_release_area[OF assms(1-3), of now e] assms(4,5)
  by simp_all

text \<open>
  C8. The correction of a selection without area misses the selection that is empty along
  one axis only. \<open>on_button_release\<close> means to prevent the degenerate selection, but its
  guard \<open>end_x == start_x and end_y == start_y\<close> asks for both coordinates to be equal.
  A press at (10, 10) and a release at (10, 50) select a rectangle of width 0 and area 0;
  the guard is false, nothing is moved, and drawing mode is entered with the drawing area
  (10, 10)-(10, 50) and an empty crop of 0 by 40 pixels.
\<close>

theorem zero_width_selection_not_corrected:
  "is_drawing_mode (on_button_release selecting_session 2 \<lparr>ev_x = 10, ev_y = 50\<rparr>) \<and>
   drawing_area (on_button_release selecting_session 2 \<lparr>ev_x = 10, ev_y = 50\<rparr>) = Some (10, 10, 10, 50) \<and>
   map_option image_size (screenshot (on_button_release selecting_session 2 \<lparr>ev_x = 10, ev_y = 50\<rparr>))
     = Some (0, 40)"
proof -
  have s: "start_x selecting_session = Some 10" "start_y selecting_session = Some 10"
    "full_screenshot selecting_session = Some (Frombytes (200, 200) [])"
    by (simp_all add: selecting_session_def on_button_press_def setup_screenshot_canvas_def
        QuickDrawScreenshot_init_def update_selection_def update_overlay_def Let_def canvas_defs)
  show ?thesis
    using on_button_release_area[OF s, of 2 "\<lparr>ev_x = 10, ev_y = 50\<rparr>"] by simp
qed

subsection \<open>Executing and undoing a command\<close>




















subsection \<open>What the export depends on\<close>

text \<open>
  C4, as the code has it. The result of \<open>copy_to_clipboard\<close> is determined by the
  captured image, the drawing-area rectangle, the committed commands, the current
  annotation colour (the border is drawn in it) and whether the session is in drawing
  mode: two sessions that agree on these five give the same result, whatever else
  differs, for the same installed fonts.
\<close>

theorem copy_to_clipboard_depends_on:
  assumes "is_drawing_mode s = is_drawing_mode s'"
    "full_screenshot s = full_screenshot s'"
    "drawing_area s = drawing_area s'"
    "undo_stack s = undo_stack s'"
    "current_color s = current_color s'"
  shows "copy_to_clipboard fonts s = copy_to_clipboard fonts s'"
  unfolding copy_to_clipboard_def assms by (rule refl)

text \<open>
  C4 as stated fails: the captured image, the drawing area and the commands do not
  determine the output. After the colour picker has set the colour to \<open>#0000ff\<close> the
  three are as before, and the one-pixel border of the export is drawn in \<open>#0000ff\<close>
  instead of \<open>red\<close>.
\<close>

theorem border_colour_counterexample:
  "is_drawing_mode (color_callback scenario_session (Some ''#0000ff'')) = is_drawing_mode scenario_session \<and>
   full_screenshot (color_callback scenario_session (Some ''#0000ff'')) = full_screenshot scenario_session \<and>
   drawing_area (color_callback scenario_session (Some ''#0000ff'')) = drawing_area scenario_session \<and>
   undo_stack (color_callback scenario_session (Some ''#0000ff'')) = undo_stack scenario_session \<and>
   copy_to_clipboard (\<lambda>f. False) scenario_session =
     Inr (Some (DrawRectangle
                  (ImagePaste (ImageNew (102, 102))
                     (ImageCrop (Frombytes (200, 200) []) (0, 0, 100, 100)) (1, 1))
                  (0, 0, 101, 101) ''red'' 1)) \<and>
   copy_to_clipboard (\<lambda>f. False) (color_callback scenario_session (Some ''#0000ff'')) =
     Inr (Some (DrawRectangle
                  (ImagePaste (ImageNew (102, 102))
                     (ImageCrop (Frombytes (200, 200) []) (0, 0, 100, 100)) (1, 1))
                  (0, 0, 101, 101) ''#0000ff'' 1)) \<and>
   copy_to_clipboard (\<lambda>f. False) scenario_session \<noteq>
     copy_to_clipboard (\<lambda>f. False) (color_callback scenario_session (Some ''#0000ff''))"
  by (simp add: color_callback_def copy_to_clipboard_def scenario_session_eval)

text \<open>The session with the committed rectangle, and the same session with a resize handle
  grabbed, differ (canvas, resize state) and export the same image.\<close>

theorem copy_to_clipboard_depends_on_witness:
  "\<exists>s s'. committed_session = Inr s \<and> resizing_session = Inr s' \<and> s \<noteq> s' \<and>
     is_drawing_mode s = is_drawing_mode s' \<and> full_screenshot s = full_screenshot s' \<and>
     drawing_area s = drawing_area s' \<and> undo_stack s = undo_stack s' \<and>
     current_color s = current_color s' \<and>
     copy_to_clipboard (\<lambda>f. False) s = copy_to_clipboard (\<lambda>f. False) s' \<and>
     copy_to_clipboard (\<lambda>f. False) s =
       Inr (Some (DrawRectangle
                   (DrawRectangle
                      (ImagePaste (ImageNew (102, 102))
                         (ImageCrop (Frombytes (200, 200) []) (0, 0, 100, 100)) (1, 1))
                      (0, 0, 101, 101) ''red'' 1)
                   (11, 11, 51, 51) ''red'' 2))"
proof -
  obtain s where s: "committed_session = Inr s" "s = scenario_session\<lparr>current_tool := ''rectangle'', start_x := None, start_y := None,
        rect_canvas := \<lparr>display_list = display_list (rect_canvas scenario_session) @ [rect_item 12 [10, 10, 50, 50]],
                        next_id = 13\<rparr>,
        undo_stack := [rect_cmd 12]\<rparr>"
    using committed_session_eval by simp
  obtain s' where s': "resizing_session = Inr s'" "s' = scenario_session\<lparr>current_tool := ''rectangle'', start_x := None, start_y := None,
        rect_canvas :=
          itemconfig \<lparr>display_list = display_list (rect_canvas scenario_session) @ [rect_item 12 [10, 10, 50, 50]],
                      next_id = 13\<rparr> (Id 7) (\<lambda>it. it\<lparr>item_state := ''normal''\<rparr>),
        undo_stack := [rect_cmd 12],
        resizing := Some 2, resize_start_x := Some 100, resize_start_y := Some 100\<rparr>"
    using resizing_session_eval by simp
  have eqs: "is_drawing_mode s = is_drawing_mode s'" "full_screenshot s = full_screenshot s'"
     "drawing_area s = drawing_area s'" "undo_stack s = undo_stack s'"
     "current_color s = current_color s'"
    by (simp_all add: s(2) s'(2))
  have ne: "s \<noteq> s'"
  proof
    assume "s = s'"
    then have "resizing s = resizing s'" by simp
    then show False by (simp add: s(2) s'(2) scenario_session_eval)
  qed
  have v: "copy_to_clipboard (\<lambda>f. False) s =
       Inr (Some (DrawRectangle
                   (DrawRectangle
                      (ImagePaste (ImageNew (102, 102))
                         (ImageCrop (Frombytes (200, 200) []) (0, 0, 100, 100)) (1, 1))
                      (0, 0, 101, 101) ''red'' 1)
                   (11, 11, 51, 51) ''red'' 2))"
    by (simp add: s(2) copy_to_clipboard_def scenario_session_eval rect_cmd_def)
  show ?thesis
    using s(1) s'(1) ne eqs v copy_to_clipboard_depends_on[OF eqs, of "\<lambda>f. False"] by blast
qed

subsection \<open>Arrow geometry\<close>

text \<open>The angle of \<open>atan2\<close> points from the first endpoint to the second: its cosine and
  sine are the components of the unit vector of that direction.\<close>

lemma cos_sin_arctan_div:
  fixes dx dy :: real
  assumes "dx \<noteq> 0"
  shows "cos (arctan (dy / dx)) = \<bar>dx\<bar> / sqrt (dx\<^sup>2 + dy\<^sup>2)"
    and "sin (arctan (dy / dx)) = (dy / dx) * \<bar>dx\<bar> / sqrt (dx\<^sup>2 + dy\<^sup>2)"
proof -
  have "1 + (dy / dx)\<^sup>2 = (dx\<^sup>2 + dy\<^sup>2) / dx\<^sup>2"
    using assms by (simp add: field_simps power2_eq_square)
  then have s: "sqrt (1 + (dy / dx)\<^sup>2) = sqrt (dx\<^sup>2 + dy\<^sup>2) / \<bar>dx\<bar>"
    by (simp add: real_sqrt_divide)
  show "cos (arctan (dy / dx)) = \<bar>dx\<bar> / sqrt (dx\<^sup>2 + dy\<^sup>2)"
    by (simp add: cos_arctan s)
  show "sin (arctan (dy / dx)) = (dy / dx) * \<bar>dx\<bar> / sqrt (dx\<^sup>2 + dy\<^sup>2)"
    by (simp add: sin_arctan s)
qed

lemma atan2_direction:
  fixes dx dy :: real
  assumes "dx \<noteq> 0 \<or> dy \<noteq> 0"
  shows "cos (atan2 dy dx) = dx / sqrt (dx\<^sup>2 + dy\<^sup>2)"
    and "sin (atan2 dy dx) = dy / sqrt (dx\<^sup>2 + dy\<^sup>2)"
proof -
  consider "0 < dx" | "dx < 0" | "dx = 0" "0 < dy" | "dx = 0" "dy < 0"
    using assms by linarith
  then have "cos (atan2 dy dx) = dx / sqrt (dx\<^sup>2 + dy\<^sup>2) \<and>
             sin (atan2 dy dx) = dy / sqrt (dx\<^sup>2 + dy\<^sup>2)"
  proof cases
    case 1
    then show ?thesis
      using cos_sin_arctan_div[of dx dy] by (simp add: atan2_def)
  next
    case 2
    then show ?thesis
      using cos_sin_arctan_div[of dx dy] by (simp add: atan2_def)
  next
    case 3
    then show ?thesis by (simp add: atan2_def)
  next
    case 4
    then show ?thesis by (simp add: atan2_def real_sqrt_abs)
  qed
  then show "cos (atan2 dy dx) = dx / sqrt (dx\<^sup>2 + dy\<^sup>2)"
    and "sin (atan2 dy dx) = dy / sqrt (dx\<^sup>2 + dy\<^sup>2)"
    by simp_all
qed

lemma draw_arrow_coords:
  assumes "x1 \<noteq> x2 \<or> y1 \<noteq> y2"
  shows "map item_coords (drop (length (display_list (rect_canvas s)))
            (display_list (rect_canvas (draw_arrow s x1 y1 x2 y2 tags)))) =
         (let r = sqrt ((x2 - x1)\<^sup>2 + (y2 - y1)\<^sup>2);
              ux = (x2 - x1) / r; uy = (y2 - y1) / r;
              len = real_of_int (max (line_thickness s * 3) 8);
              half = real_of_int (line_thickness s * 2);
              bx = x2 - len * ux; by = y2 - len * uy
          in [[x1, y1, bx, by],
              [x2, y2, bx + half * uy, by - half * ux, bx - half * uy, by + half * ux]])"
proof -
  have d: "x2 - x1 \<noteq> 0 \<or> y2 - y1 \<noteq> 0" using assms by auto
  show ?thesis
    by (simp add: draw_arrow_def Let_def create_line_def create_polygon_def create_item_def
        atan2_direction[OF d])
qed

lemma DrawCommand_execute_arrow_coords:
  assumes "x1 \<noteq> x2 \<or> y1 \<noteq> y2"
  shows "map item_coords (drop (length (display_list cv))
            (display_list (snd (DrawCommand_execute
               (DrawCommand_init ''arrow'' sid x1 y1 x2 y2 color thickness) cv)))) =
         (let r = sqrt ((x2 - x1)\<^sup>2 + (y2 - y1)\<^sup>2);
              ux = (x2 - x1) / r; uy = (y2 - y1) / r;
              len = real_of_int (max (thickness * 3) 8);
              half = len / 2;
              bx = x2 - len * (sqrt 3 / 2) * ux; by = y2 - len * (sqrt 3 / 2) * uy
          in [[x1, y1, x2 - len * 0.8 * ux, y2 - len * 0.8 * uy],
              [x2, y2, bx - half * uy, by + half * ux, bx + half * uy, by - half * ux]])"
proof -
  have d: "x2 - x1 \<noteq> 0 \<or> y2 - y1 \<noteq> 0" using assms by auto
  show ?thesis
    by (simp add: DrawCommand_execute_def DrawCommand_init_def arrow_head_size_def Let_def
        create_line_def create_polygon_def create_item_def
        cos_diff cos_add sin_diff sin_add cos_30 sin_30 atan2_direction[OF d] algebra_simps)
qed

text \<open>
  C5, as the code has it. Let \<open>(ux, uy)\<close> be the unit vector from \<open>p1 = (x1, y1)\<close> to
  \<open>p2 = (x2, y2)\<close>, two different points, and let the head length be \<open>max(3w, 8)\<close> for
  the stroke width \<open>w\<close>.

  The live preview (\<open>draw_arrow\<close>) draws the shaft from \<open>p1\<close> to \<open>p2\<close> shortened by the
  head length along the direction, and the head as the triangle with its apex at \<open>p2\<close>
  and its two base corners at the shaft end plus and minus \<open>2w\<close> times the normal
  \<open>(uy, -ux)\<close>.

  The committed command (\<open>DrawCommand.execute\<close>) draws the shaft from \<open>p1\<close> to \<open>p2\<close>
  shortened by 0.8 times the head length, and the head with its apex at \<open>p2\<close> and its
  base corners at the point \<open>sqrt 3 / 2\<close> times the head length behind \<open>p2\<close>, minus and
  plus half the head length times the normal (the corners are the head length away from
  the apex, 30 degrees off the shaft; the shaft ends inside the head).

  In both renderings the two base corners are mirror images of each other in the line
  through \<open>p1\<close> and \<open>p2\<close>.
\<close>

theorem arrow_geometry:
  assumes "x1 \<noteq> x2 \<or> y1 \<noteq> y2"
  shows "(let r = sqrt ((x2 - x1)\<^sup>2 + (y2 - y1)\<^sup>2);
              ux = (x2 - x1) / r; uy = (y2 - y1) / r
          in ux\<^sup>2 + uy\<^sup>2 = 1) \<and>
     map item_coords (drop (length (display_list (rect_canvas s)))
            (display_list (rect_canvas (draw_arrow s x1 y1 x2 y2 tags)))) =
         (let r = sqrt ((x2 - x1)\<^sup>2 + (y2 - y1)\<^sup>2);
              ux = (x2 - x1) / r; uy = (y2 - y1) / r;
              len = real_of_int (max (line_thickness s * 3) 8);
              half = real_of_int (line_thickness s * 2);
              bx = x2 - len * ux; by = y2 - len * uy
          in [[x1, y1, bx, by],
              [x2, y2, bx + half * uy, by - half * ux, bx - half * uy, by + half * ux]]) \<and>
     map item_coords (drop (length (display_list cv))
            (display_list (snd (DrawCommand_execute
               (DrawCommand_init ''arrow'' sid x1 y1 x2 y2 color thickness) cv)))) =
         (let r = sqrt ((x2 - x1)\<^sup>2 + (y2 - y1)\<^sup>2);
              ux = (x2 - x1) / r; uy = (y2 - y1) / r;
              len = real_of_int (max (thickness * 3) 8);
              half = len / 2;
              bx = x2 - len * (sqrt 3 / 2) * ux; by = y2 - len * (sqrt 3 / 2) * uy
          in [[x1, y1, x2 - len * 0.8 * ux, y2 - len * 0.8 * uy],
              [x2, y2, bx - half * uy, by + half * ux, bx + half * uy, by - half * ux]])"
proof -
  have "0 < (x2 - x1)\<^sup>2 + (y2 - y1)\<^sup>2"
    using assms by (auto simp: sum_power2_gt_zero_iff)
  then have "((x2 - x1) / sqrt ((x2 - x1)\<^sup>2 + (y2 - y1)\<^sup>2))\<^sup>2 +
        ((y2 - y1) / sqrt ((x2 - x1)\<^sup>2 + (y2 - y1)\<^sup>2))\<^sup>2 = 1"
    using assms by (auto simp: power_divide add_divide_distrib[symmetric])
  then show ?thesis
    using draw_arrow_coords[OF assms, of s tags]
      DrawCommand_execute_arrow_coords[OF assms, of cv sid color thickness]
    by (simp add: Let_def)
qed

text \<open>
  C5 as stated fails for the committed command: for \<open>p1 = (0, 0)\<close>, \<open>p2 = (100, 0)\<close> and
  the width 2 the head length is 8, and \<open>DrawCommand.execute\<close> ends the shaft at
  (93.6, 0), not at (92, 0). The apex is (100, 0) and the base corners are
  \<open>(100 - 4 sqrt 3, 4)\<close> and \<open>(100 - 4 sqrt 3, -4)\<close>.
\<close>

theorem committed_arrow_shaft_counterexample:
  "map item_coords (display_list (snd (DrawCommand_execute
       (DrawCommand_init ''arrow'' NoShape 0 0 100 0 ''red'' 2) Canvas))) =
     [[0, 0, 93.6, 0], [100, 0, 100 - 4 * sqrt 3, 4, 100 - 4 * sqrt 3, - 4]] \<and>
   (93.6 :: real) \<noteq> 92"
  by (simp add: DrawCommand_execute_def DrawCommand_init_def arrow_head_size_def Let_def
      create_line_def create_polygon_def create_item_def Canvas_def atan2_def cos_30 sin_30)

text \<open>The example of the specification in both renderings: the preview ends the shaft at
  (92, 0) with the base corners (92, -4) and (92, 4).\<close>

theorem arrow_geometry_witness:
  "map item_coords (drop (length (display_list (rect_canvas scenario_session)))
      (display_list (rect_canvas (draw_arrow scenario_session 0 0 100 0 [''temp_shape'', ''drawing''])))) =
     [[0, 0, 92, 0], [100, 0, 92, - 4, 92, 4]] \<and>
   map item_coords (drop (length (display_list Canvas))
      (display_list (snd (DrawCommand_execute
         (DrawCommand_init ''arrow'' NoShape 0 0 100 0 ''red'' 2) Canvas)))) =
     [[0, 0, 93.6, 0], [100, 0, 100 - 4 * sqrt 3, 4, 100 - 4 * sqrt 3, - 4]]"
proof -
  have h: "(0::real) \<noteq> 100 \<or> (0::real) \<noteq> 0" by simp
  have t: "line_thickness scenario_session = 2" by (simp add: scenario_session_eval)
  show ?thesis
    using arrow_geometry[OF h, of scenario_session "[''temp_shape'', ''drawing'']" Canvas NoShape "''red''" 2]
    by (simp add: t Let_def)
qed


end
